theory Spec2Isabelle
  imports Main "HOL-Library.Word" "HOL-Library.Sublist"
begin

section \<open>The replicated state machine: Apply (pkg/store/fsm.go)\<close>

text \<open>
  Raft terms and indexes are Go \<open>uint64\<close> values, compared without sign. The local
  database keeps them as \<open>int64\<close>; the conversions \<open>int64(x)\<close> and \<open>uint64(x)\<close> keep
  the 64 bits as they are, so both sides are 64-bit words here and the conversions are
  the identity on them.
\<close>

type_synonym uint64 = "64 word"
type_synonym bytes = string

datatype LogType =
  LogCommand | LogNoop | LogAddPeerDeprecated | LogRemovePeerDeprecated
  | LogBarrier | LogConfiguration

record Log =
  Index :: uint64
  Term :: uint64
  Type :: LogType
  Data :: bytes

datatype RaftLogFormat =
  RaftLogFormatJSON | RaftLogFormatProtobuf | RaftLogFormatProtobufSnappy
  | RaftLogFormatOther string

record RaftApplyResponse =
  Time :: string
  Error :: string

text \<open>The row of the local database written by \<open>SetCurrentRaftIndex\<close>.\<close>

record CurrentRaftIndex =
  LogIndex :: uint64
  RowTerm :: uint64

text \<open>
  The store: the in-memory \<open>raftIndex\<close>, the persisted checkpoint row of the local
  database (no row before the first entry is applied) and the replicated data of the
  sub-stores.
\<close>

record 'db store =
  raftIndex :: uint64
  raftState :: "CurrentRaftIndex option"
  data :: 'db

text \<open>
  What \<open>Apply\<close> calls and this file does not hold: the three decoders, and
  \<open>s.apply\<close>, which dispatches a decoded command to the sub-stores and builds the
  response. They are parameters. A decoder returns the error text on the left.
\<close>

record ('cmd, 'db) fsm =
  raftLogFormat :: RaftLogFormat
  protojson_Unmarshal :: "bytes \<Rightarrow> string + 'cmd"
  proto_Unmarshal :: "bytes \<Rightarrow> string + 'cmd"
  snappy_Decode :: "bytes \<Rightarrow> string + bytes"
  apply_cmd :: "Log \<Rightarrow> 'cmd \<Rightarrow> 'db \<Rightarrow> RaftApplyResponse \<times> 'db"

text \<open>
  What one call meets outside the store: whether the two queries on the local database
  fail (with which error text), and the elapsed time it reports.
\<close>

record io =
  get_error :: "string option"
  set_error :: "string option"
  took :: string

definition getDBTermAndIndex :: "io \<Rightarrow> 'db store \<Rightarrow> string + (uint64 \<times> uint64)" where
  "getDBTermAndIndex env s =
     (case get_error env of
        Some e \<Rightarrow> Inl (''get raft state: '' @ e)
      | None \<Rightarrow>
          (case raftState s of
             None \<Rightarrow> Inr (0, 0)
           | Some r \<Rightarrow> Inr (RowTerm r, LogIndex r)))"

text \<open>The switch on the configured log format.\<close>

definition decode_entry :: "('cmd, 'db) fsm \<Rightarrow> bytes \<Rightarrow> string + 'cmd" where
  "decode_entry m d =
     (case raftLogFormat m of
        RaftLogFormatJSON \<Rightarrow> protojson_Unmarshal m d
      | RaftLogFormatProtobuf \<Rightarrow> proto_Unmarshal m d
      | RaftLogFormatProtobufSnappy \<Rightarrow>
          (case snappy_Decode m d of
             Inl e \<Rightarrow> Inl e
           | Inr decoded \<Rightarrow> proto_Unmarshal m decoded)
      | RaftLogFormatOther f \<Rightarrow> Inl (''unknown raft log format: '' @ f))"

text \<open>
  The deferred function that saves the new index: it runs on every return after the two
  guards, and a failed write is only logged.
\<close>

definition save_index :: "io \<Rightarrow> uint64 \<Rightarrow> Log \<Rightarrow> 'db store \<Rightarrow> 'db store" where
  "save_index env dbIndex l s =
     (if dbIndex \<noteq> Index l then
        (case set_error env of
           None \<Rightarrow> s\<lparr>raftState := Some \<lparr>LogIndex = Index l, RowTerm = Term l\<rparr>\<rparr>
         | Some e \<Rightarrow> s)
      else s)"

definition Apply ::
  "('cmd, 'db) fsm \<Rightarrow> io \<Rightarrow> Log \<Rightarrow> 'db store \<Rightarrow> RaftApplyResponse \<times> 'db store" where
  "Apply m env l s =
     (let (res, s') =
        (case getDBTermAndIndex env s of
           Inl err \<Rightarrow>
             (\<lparr>Time = took env, Error = ''check last applied index: '' @ err\<rparr>, s)
         | Inr (dbTerm, dbIndex) \<Rightarrow>
             if Term l < dbTerm then (\<lparr>Time = took env, Error = []\<rparr>, s)
             else if Index l \<le> dbIndex then (\<lparr>Time = took env, Error = []\<rparr>, s)
             else
               (let (res, s') =
                  (if Type l \<noteq> LogCommand then (\<lparr>Time = took env, Error = []\<rparr>, s)
                   else
                     (case decode_entry m (Data l) of
                        Inl err \<Rightarrow>
                          (\<lparr>Time = took env,
                            Error = ''unmarshal raft log entry: '' @ err\<rparr>, s)
                      | Inr cmd \<Rightarrow>
                          (let (r, d) = apply_cmd m l cmd (data s)
                           in (r, s\<lparr>data := d\<rparr>))))
                in (res, save_index env dbIndex l s')))
      in (res, s'\<lparr>raftIndex := Index l\<rparr>))"


text \<open>The persisted checkpoint as \<open>getDBTermAndIndex\<close> reads it: (term, index).\<close>

definition checkpoint :: "'db store \<Rightarrow> uint64 \<times> uint64" where
  "checkpoint s = (case raftState s of None \<Rightarrow> (0, 0) | Some r \<Rightarrow> (RowTerm r, LogIndex r))"


subsection \<open>A concrete state machine\<close>

text \<open>
  Commands are numbers, the data is the list of the commands applied so far (newest
  first), and the JSON decoder rejects the empty payload.
\<close>

definition ex_fsm :: "(nat, nat list) fsm" where
  "ex_fsm =
     \<lparr>raftLogFormat = RaftLogFormatJSON,
      protojson_Unmarshal =
        (\<lambda>d. if d = [] then Inl ''unexpected end of input'' else Inr (length d)),
      proto_Unmarshal = (\<lambda>d. Inl ''cannot parse invalid wire-format data''),
      snappy_Decode = (\<lambda>d. Inr d),
      apply_cmd = (\<lambda>l c d. (\<lparr>Time = ''1ms'', Error = []\<rparr>, c # d))\<rparr>"

definition ex_io :: io where
  "ex_io = \<lparr>get_error = None, set_error = None, took = ''1ms''\<rparr>"


definition ex_store :: "nat list store" where
  "ex_store = \<lparr>raftIndex = 5, raftState = Some \<lparr>LogIndex = 5, RowTerm = 2\<rparr>, data = [7]\<rparr>"

definition ex_fresh :: "nat list store" where
  "ex_fresh = \<lparr>raftIndex = 0, raftState = None, data = []\<rparr>"

definition ex_log :: "uint64 \<Rightarrow> uint64 \<Rightarrow> bytes \<Rightarrow> Log" where
  "ex_log t i d = \<lparr>Index = i, Term = t, Type = LogCommand, Data = d\<rparr>"

subsection \<open>Properties of Apply\<close>








text \<open>
  C1. When the checkpoint read gives (ct, ci) and the entry's term is below ct, or its
  term is ct and its index is at most ci, Apply answers with an empty error, leaves the
  data of the sub-stores as it was and leaves the persisted checkpoint row as it was.
\<close>

theorem Apply_stale_entry_is_noop:
  assumes "getDBTermAndIndex env s = Inr (ct, ci)"
    and "Term l < ct \<or> (Term l = ct \<and> Index l \<le> ci)"
  shows "Error (fst (Apply m env l s)) = [] \<and>
         data (snd (Apply m env l s)) = data s \<and>
         raftState (snd (Apply m env l s)) = raftState s"
  using assms by (auto simp: Apply_def)

theorem Apply_stale_entry_is_noop_witness:
  "getDBTermAndIndex ex_io ex_store = Inr (2, 5) \<and>
   Term (ex_log 2 5 ''x'') = 2 \<and> Index (ex_log 2 5 ''x'') \<le> 5 \<and>
   Error (fst (Apply ex_fsm ex_io (ex_log 2 5 ''x'') ex_store)) = [] \<and>
   data (snd (Apply ex_fsm ex_io (ex_log 2 5 ''x'') ex_store)) = data ex_store \<and>
   raftState (snd (Apply ex_fsm ex_io (ex_log 2 5 ''x'') ex_store)) = raftState ex_store"
proof -
  have r: "getDBTermAndIndex ex_io ex_store = Inr (2, 5)"
    by (simp add: getDBTermAndIndex_def ex_io_def ex_store_def)
  have g: "Term (ex_log 2 5 ''x'') < 2 \<or>
           (Term (ex_log 2 5 ''x'') = 2 \<and> Index (ex_log 2 5 ''x'') \<le> 5)"
    by (simp add: ex_log_def)
  show ?thesis
    using Apply_stale_entry_is_noop [OF r g, of ex_fsm] r by (simp add: ex_log_def)
qed





text \<open>
  C3, as amended. For a command entry whose payload the configured decoder rejects,
  Apply never changes the data of the sub-stores. When the checkpoint read fails, the
  response carries that failure; when the entry passes the two guards against replay,
  the response carries the decoder's error, which is not empty. An entry that a guard
  catches is answered as already applied, with an empty error, and is not decoded.
\<close>

theorem Apply_undecodable_entry:
  assumes "Type l = LogCommand" and "decode_entry m (Data l) = Inl err"
  shows "data (snd (Apply m env l s)) = data s \<and>
     (case getDBTermAndIndex env s of
        Inl e \<Rightarrow>
          Error (fst (Apply m env l s)) = ''check last applied index: '' @ e \<and>
          Error (fst (Apply m env l s)) \<noteq> []
      | Inr (ct, ci) \<Rightarrow>
          if Term l < ct \<or> Index l \<le> ci then Error (fst (Apply m env l s)) = []
          else Error (fst (Apply m env l s)) = ''unmarshal raft log entry: '' @ err \<and>
               Error (fst (Apply m env l s)) \<noteq> [])"
  using assms
  by (auto simp: Apply_def save_index_def Let_def
      split: option.splits sum.splits prod.splits)

theorem Apply_undecodable_entry_witness:
  "Type (ex_log 2 6 []) = LogCommand \<and>
   decode_entry ex_fsm (Data (ex_log 2 6 [])) = Inl ''unexpected end of input'' \<and>
   getDBTermAndIndex ex_io ex_store = Inr (2, 5) \<and>
   data (snd (Apply ex_fsm ex_io (ex_log 2 6 []) ex_store)) = data ex_store \<and>
   Error (fst (Apply ex_fsm ex_io (ex_log 2 6 []) ex_store))
     = ''unmarshal raft log entry: unexpected end of input''"
proof -
  have t: "Type (ex_log 2 6 []) = LogCommand"
    by (simp add: ex_log_def)
  have d: "decode_entry ex_fsm (Data (ex_log 2 6 [])) = Inl ''unexpected end of input''"
    by (simp add: decode_entry_def ex_fsm_def ex_log_def)
  have r: "getDBTermAndIndex ex_io ex_store = Inr (2, 5)"
    by (simp add: getDBTermAndIndex_def ex_io_def ex_store_def)
  show ?thesis
    using Apply_undecodable_entry [OF t d, of ex_io ex_store] t d r
    by (simp add: ex_log_def)
qed

text \<open>
  The claim as stated fails on a replay: the undecodable entry (term 1, index 1) on a
  fresh store is answered with an error and still advances the checkpoint; the same
  entry again is caught by the guard and answered with an empty error.
\<close>

theorem Apply_undecodable_replay_counterexample:
  "Type (ex_log 1 1 []) = LogCommand \<and>
   decode_entry ex_fsm (Data (ex_log 1 1 [])) = Inl ''unexpected end of input'' \<and>
   Error (fst (Apply ex_fsm ex_io (ex_log 1 1 []) ex_fresh))
     = ''unmarshal raft log entry: unexpected end of input'' \<and>
   checkpoint (snd (Apply ex_fsm ex_io (ex_log 1 1 []) ex_fresh)) = (1, 1) \<and>
   Error (fst (Apply ex_fsm ex_io (ex_log 1 1 [])
                (snd (Apply ex_fsm ex_io (ex_log 1 1 []) ex_fresh)))) = []"
  by (simp add: Apply_def getDBTermAndIndex_def save_index_def checkpoint_def Let_def
      decode_entry_def ex_fsm_def ex_io_def ex_fresh_def ex_log_def)

section \<open>Network ACLs and routes (package networking)\<close>

text \<open>
  Errors as values. \<open>Errorf msg (Some e)\<close> is \<open>fmt.Errorf\<close> wrapping \<open>e\<close> behind
  the text \<open>msg\<close>; \<open>ErrDriver\<close> is whatever the database driver reports.
\<close>

datatype error =
  ErrNoRows
  | ErrACLNotFound
  | ErrRouteNotFound
  | ErrKeyNotFound
  | ErrAlreadyBootstrapped
  | ErrDriver string
  | Errorf string "error option"

text \<open>\<open>strings.Join\<close>, \<open>strings.Split\<close> on a one-character separator (of the empty
  string it gives one empty field) and \<open>strconv.Itoa\<close> on a number that is not negative.\<close>

fun Join :: "string list \<Rightarrow> string \<Rightarrow> string" where
  "Join [] sep = []"
| "Join [x] sep = x"
| "Join (x # y # ys) sep = x @ sep @ Join (y # ys) sep"

fun Split :: "string \<Rightarrow> char \<Rightarrow> string list" where
  "Split [] c = [[]]"
| "Split (x # xs) c =
     (if x = c then [] # Split xs c
      else (case Split xs c of [] \<Rightarrow> [[x]] | w # ws \<Rightarrow> (x # w) # ws))"

fun Itoa :: "nat \<Rightarrow> string" where
  "Itoa n =
     (if n < 10 then [char_of (48 + n)]
      else Itoa (n div 10) @ [char_of (48 + n mod 10)])"

text \<open>The API messages \<open>v1.NetworkACL\<close> and \<open>v1.Route\<close>.\<close>

record NetworkACL =
  ACL_Name :: string
  ACL_Priority :: int
  ACL_Action :: int
  ACL_SourceNodes :: "string list"
  ACL_DestinationNodes :: "string list"
  ACL_SourceCidrs :: "string list"
  ACL_DestinationCidrs :: "string list"
  ACL_Protocols :: "string list"
  ACL_Ports :: "nat list"

record Route =
  Route_Name :: string
  Route_Nodes :: "string list"
  Route_DestinationCidrs :: "string list"
  Route_NextHopNodes :: "string list"

text \<open>The rows \<open>raftdb.NetworkAcl\<close> and \<open>raftdb.NetworkRoute\<close>; a \<open>sql.NullString\<close> is an
  option.\<close>

record NetworkAcl =
  Acl_Name :: string
  Acl_Priority :: int
  Acl_Action :: int
  Acl_SrcNodeIds :: "string option"
  Acl_DstNodeIds :: "string option"
  Acl_SrcCidrs :: "string option"
  Acl_DstCidrs :: "string option"
  Acl_Protocols :: "string option"
  Acl_Ports :: "string option"
  Acl_CreatedAt :: nat
  Acl_UpdatedAt :: nat

record NetworkRoute =
  Rt_Name :: string
  Rt_Nodes :: string
  Rt_DstCidrs :: string
  Rt_NextHops :: "string option"
  Rt_CreatedAt :: nat
  Rt_UpdatedAt :: nat

text \<open>The two tables, and what one call meets outside them: whether a read or a write
  fails in the driver, and the clock.\<close>

record raftdb =
  network_acls :: "NetworkAcl list"
  network_routes :: "NetworkRoute list"

record dbio =
  query_error :: "string option"
  exec_error :: "string option"
  now :: nat

text \<open>
  Modelled from the spec: the generated queries of package \<open>raftdb\<close> (\<open>PutNetworkACL\<close>,
  \<open>DeleteNetworkACL\<close>, \<open>PutNetworkRoute\<close>, \<open>GetNetworkRoute\<close>) are not among the sources.
  Each entry is addressable by its name; a put replaces the row of that name, a delete of
  an absent name succeeds, and a read of an absent name is \<open>sql.ErrNoRows\<close>.
\<close>

definition q_PutNetworkACL :: "dbio \<Rightarrow> NetworkAcl \<Rightarrow> raftdb \<Rightarrow> error option \<times> raftdb" where
  "q_PutNetworkACL io p db =
     (case exec_error io of
        Some e \<Rightarrow> (Some (ErrDriver e), db)
      | None \<Rightarrow> (None, db\<lparr>network_acls :=
            p # filter (\<lambda>r. Acl_Name r \<noteq> Acl_Name p) (network_acls db)\<rparr>))"

definition q_DeleteNetworkACL :: "dbio \<Rightarrow> string \<Rightarrow> raftdb \<Rightarrow> error option \<times> raftdb" where
  "q_DeleteNetworkACL io name db =
     (case exec_error io of
        Some e \<Rightarrow> (Some (ErrDriver e), db)
      | None \<Rightarrow> (None, db\<lparr>network_acls :=
            filter (\<lambda>r. Acl_Name r \<noteq> name) (network_acls db)\<rparr>))"

definition q_PutNetworkRoute :: "dbio \<Rightarrow> NetworkRoute \<Rightarrow> raftdb \<Rightarrow> error option \<times> raftdb" where
  "q_PutNetworkRoute io p db =
     (case exec_error io of
        Some e \<Rightarrow> (Some (ErrDriver e), db)
      | None \<Rightarrow> (None, db\<lparr>network_routes :=
            p # filter (\<lambda>r. Rt_Name r \<noteq> Rt_Name p) (network_routes db)\<rparr>))"

definition q_GetNetworkRoute :: "dbio \<Rightarrow> string \<Rightarrow> raftdb \<Rightarrow> error + NetworkRoute" where
  "q_GetNetworkRoute io name db =
     (case query_error io of
        Some e \<Rightarrow> Inl (ErrDriver e)
      | None \<Rightarrow>
          (case find (\<lambda>r. Rt_Name r = name) (network_routes db) of
             None \<Rightarrow> Inl ErrNoRows
           | Some r \<Rightarrow> Inr r))"

text \<open>The functions of package networking.\<close>

definition BootstrapNodesNetworkACLName :: string where
  "BootstrapNodesNetworkACLName = ''bootstrap-nodes''"

definition IsSystemNetworkACL :: "string \<Rightarrow> bool" where
  "IsSystemNetworkACL name = (name = BootstrapNodesNetworkACLName)"

text \<open>The repeated \<open>if len(xs) > 0 { ... strings.Join(xs, ",") ... Valid: true }\<close>.\<close>

definition NullString :: "string list \<Rightarrow> string option" where
  "NullString xs = (if length xs > 0 then Some (Join xs '','') else None)"

definition PutNetworkACL :: "dbio \<Rightarrow> NetworkACL \<Rightarrow> raftdb \<Rightarrow> error option \<times> raftdb" where
  "PutNetworkACL io acl db =
     (if IsSystemNetworkACL (ACL_Name acl) then
        (Some (Errorf (''cannot update system network acl '' @ ACL_Name acl) None), db)
      else
        (let params =
           \<lparr>Acl_Name = ACL_Name acl,
            Acl_Priority = ACL_Priority acl,
            Acl_Action = ACL_Action acl,
            Acl_SrcNodeIds = NullString (ACL_SourceNodes acl),
            Acl_DstNodeIds = NullString (ACL_DestinationNodes acl),
            Acl_SrcCidrs = NullString (ACL_SourceCidrs acl),
            Acl_DstCidrs = NullString (ACL_DestinationCidrs acl),
            Acl_Protocols = NullString (ACL_Protocols acl),
            Acl_Ports = NullString (map Itoa (ACL_Ports acl)),
            Acl_CreatedAt = now io,
            Acl_UpdatedAt = now io\<rparr>
         in (case q_PutNetworkACL io params db of
               (Some err, db') \<Rightarrow> (Some (Errorf ''put network acl: '' (Some err)), db')
             | (None, db') \<Rightarrow> (None, db'))))"

definition DeleteNetworkACL :: "dbio \<Rightarrow> string \<Rightarrow> raftdb \<Rightarrow> error option \<times> raftdb" where
  "DeleteNetworkACL io name db =
     (if IsSystemNetworkACL name then
        (Some (Errorf (''cannot delete system network acl '' @ name) None), db)
      else
        (case q_DeleteNetworkACL io name db of
           (Some err, db') \<Rightarrow> (Some (Errorf ''delete network acl: '' (Some err)), db')
         | (None, db') \<Rightarrow> (None, db')))"

definition dbRouteToAPIRoute :: "NetworkRoute \<Rightarrow> Route" where
  "dbRouteToAPIRoute dbRoute =
     \<lparr>Route_Name = Rt_Name dbRoute,
      Route_Nodes = Split (Rt_Nodes dbRoute) (CHR '',''),
      Route_DestinationCidrs = Split (Rt_DstCidrs dbRoute) (CHR '',''),
      Route_NextHopNodes =
        (case Rt_NextHops dbRoute of Some s \<Rightarrow> Split s (CHR '','') | None \<Rightarrow> [])\<rparr>"

definition PutRoute :: "dbio \<Rightarrow> Route \<Rightarrow> raftdb \<Rightarrow> error option \<times> raftdb" where
  "PutRoute io route db =
     (let params =
        \<lparr>Rt_Name = Route_Name route,
         Rt_Nodes = Join (Route_Nodes route) '','',
         Rt_DstCidrs = Join (Route_DestinationCidrs route) '','',
         Rt_NextHops = NullString (Route_NextHopNodes route),
         Rt_CreatedAt = now io,
         Rt_UpdatedAt = now io\<rparr>
      in (case q_PutNetworkRoute io params db of
            (Some err, db') \<Rightarrow> (Some (Errorf ''put network route: '' (Some err)), db')
          | (None, db') \<Rightarrow> (None, db')))"

definition GetRoute :: "dbio \<Rightarrow> string \<Rightarrow> raftdb \<Rightarrow> error + Route" where
  "GetRoute io name db =
     (case q_GetNetworkRoute io name db of
        Inl err \<Rightarrow>
          (if err = ErrNoRows then Inl ErrRouteNotFound
           else Inl (Errorf ''get network route: '' (Some err)))
      | Inr route \<Rightarrow> Inr (dbRouteToAPIRoute route))"

definition AppendNodeToRoute ::
  "dbio \<Rightarrow> string \<Rightarrow> string \<Rightarrow> raftdb \<Rightarrow> error option \<times> raftdb" where
  "AppendNodeToRoute io routeName nodeName db =
     (case GetRoute io routeName db of
        Inl err \<Rightarrow> (Some (Errorf ''get route: '' (Some err)), db)
      | Inr route \<Rightarrow>
          if nodeName \<in> set (Route_Nodes route) then (None, db)
          else PutRoute io (route\<lparr>Route_Nodes := Route_Nodes route @ [nodeName]\<rparr>) db)"

subsection \<open>A concrete database\<close>

text \<open>One route \<open>r\<close> through node \<open>a\<close>, no ACL, and a driver that does not fail.\<close>

definition ex_db :: raftdb where
  "ex_db = \<lparr>network_acls = [],
           network_routes = [\<lparr>Rt_Name = ''r'', Rt_Nodes = ''a'', Rt_DstCidrs = ''10.0.0.0/24'',
              Rt_NextHops = None, Rt_CreatedAt = 1, Rt_UpdatedAt = 1\<rparr>]\<rparr>"

definition ex_dbio :: dbio where
  "ex_dbio = \<lparr>query_error = None, exec_error = None, now = 2\<rparr>"

definition ex_acl :: NetworkACL where
  "ex_acl =
     \<lparr>ACL_Name = ''allow-all'', ACL_Priority = 0, ACL_Action = 1,
      ACL_SourceNodes = [''*''], ACL_DestinationNodes = [''*''],
      ACL_SourceCidrs = [''*''], ACL_DestinationCidrs = [''*''],
      ACL_Protocols = [], ACL_Ports = []\<rparr>"

subsection \<open>Properties of the network ACL and route operations\<close>

lemma Split_no_sep: "c \<notin> set n \<Longrightarrow> Split n c = [n]"
  by (induction n) auto

lemma Split_ne: "Split s c \<noteq> []"
  by (induction s) (auto split: list.splits)

lemma Split_snoc: "c \<notin> set n \<Longrightarrow> Split (s @ c # n) c = Split s c @ [n]"
  by (induction s) (auto simp: Split_no_sep Split_ne split: list.splits)

lemma Join_snoc: "xs \<noteq> [] \<Longrightarrow> Join (xs @ [n]) sep = Join xs sep @ sep @ n"
  by (induction xs sep rule: Join.induct) auto

lemma Append_present:
  assumes "GetRoute io routeName db = Inr route" and "nodeName \<in> set (Route_Nodes route)"
  shows "AppendNodeToRoute io routeName nodeName db = (None, db)"
  using assms by (simp add: AppendNodeToRoute_def)

lemma Append_then_present:
  assumes "CHR '','' \<notin> set nodeName"
    and "AppendNodeToRoute io routeName nodeName db = (None, db')"
    and "query_error io' = None"
  shows "\<exists>route. GetRoute io' routeName db' = Inr route \<and> nodeName \<in> set (Route_Nodes route)"
proof (cases "GetRoute io routeName db")
  case (Inl e)
  with assms(2) show ?thesis by (simp add: AppendNodeToRoute_def)
next
  case (Inr route)
  then have q: "query_error io = None"
    by (auto simp: GetRoute_def q_GetNetworkRoute_def split: option.splits)
  show ?thesis
  proof (cases "nodeName \<in> set (Route_Nodes route)")
    case True
    with Inr assms(2) have "db' = db" by (simp add: AppendNodeToRoute_def)
    moreover have "GetRoute io' routeName db = GetRoute io routeName db"
      using q assms(3) by (simp add: GetRoute_def q_GetNetworkRoute_def)
    ultimately show ?thesis using Inr True by simp
  next
    case False
    have ne: "Route_Nodes route \<noteq> []"
      using Inr by (auto simp: GetRoute_def dbRouteToAPIRoute_def Split_ne
          split: sum.splits if_splits)
    have nm: "Route_Name route = routeName"
      using Inr
      by (auto simp: GetRoute_def dbRouteToAPIRoute_def q_GetNetworkRoute_def find_Some_iff
          split: sum.splits if_splits option.splits)
    from Inr False assms(2)
    have p: "PutRoute io (route\<lparr>Route_Nodes := Route_Nodes route @ [nodeName]\<rparr>) db = (None, db')"
      by (simp add: AppendNodeToRoute_def)
    then obtain r where r: "find (\<lambda>r. Rt_Name r = routeName) (network_routes db') = Some r"
      and rn: "Rt_Nodes r = Join (Route_Nodes route @ [nodeName]) '',''"
      using nm
      by (auto simp: PutRoute_def q_PutNetworkRoute_def Let_def split: option.splits)
    have "Split (Rt_Nodes r) (CHR '','')
            = Split (Join (Route_Nodes route) '','') (CHR '','') @ [nodeName]"
      unfolding rn using Join_snoc [OF ne, of nodeName "'',''"] Split_snoc [OF assms(1)]
      by simp
    then show ?thesis
      using r assms(3)
      by (simp add: GetRoute_def q_GetNetworkRoute_def dbRouteToAPIRoute_def)
  qed
qed

lemma Append_idem:
  assumes "CHR '','' \<notin> set nodeName"
    and "AppendNodeToRoute io routeName nodeName db = (None, db')"
    and "query_error io' = None"
  shows "AppendNodeToRoute io' routeName nodeName db' = (None, db')"
  using Append_then_present [OF assms] Append_present by blast

text \<open>
  C7. With the name of the bootstrap-nodes system ACL, PutNetworkACL and DeleteNetworkACL
  return the error that names the system ACL and leave the database as it was. With any
  other name they never return that error: they return no error when the driver's write
  succeeds, and otherwise the driver's error wrapped.
\<close>

theorem system_acl_immutable:
  "PutNetworkACL io (acl\<lparr>ACL_Name := BootstrapNodesNetworkACLName\<rparr>) db
     = (Some (Errorf (''cannot update system network acl '' @ BootstrapNodesNetworkACLName) None), db) \<and>
   DeleteNetworkACL io BootstrapNodesNetworkACLName db
     = (Some (Errorf (''cannot delete system network acl '' @ BootstrapNodesNetworkACLName) None), db) \<and>
   (ACL_Name acl \<noteq> BootstrapNodesNetworkACLName \<longrightarrow>
      fst (PutNetworkACL io acl db)
        = (case exec_error io of None \<Rightarrow> None
           | Some e \<Rightarrow> Some (Errorf ''put network acl: '' (Some (ErrDriver e))))) \<and>
   (name \<noteq> BootstrapNodesNetworkACLName \<longrightarrow>
      fst (DeleteNetworkACL io name db)
        = (case exec_error io of None \<Rightarrow> None
           | Some e \<Rightarrow> Some (Errorf ''delete network acl: '' (Some (ErrDriver e)))))"
  by (auto simp: PutNetworkACL_def DeleteNetworkACL_def IsSystemNetworkACL_def
        q_PutNetworkACL_def q_DeleteNetworkACL_def Let_def split: option.splits)

theorem system_acl_immutable_witness:
  "ACL_Name ex_acl \<noteq> BootstrapNodesNetworkACLName \<and>
   ''allow-all'' \<noteq> BootstrapNodesNetworkACLName \<and>
   fst (PutNetworkACL ex_dbio ex_acl ex_db) = None \<and>
   fst (DeleteNetworkACL ex_dbio ''allow-all'' ex_db) = None \<and>
   PutNetworkACL ex_dbio (ex_acl\<lparr>ACL_Name := BootstrapNodesNetworkACLName\<rparr>) ex_db
     = (Some (Errorf ''cannot update system network acl bootstrap-nodes'' None), ex_db) \<and>
   DeleteNetworkACL ex_dbio BootstrapNodesNetworkACLName ex_db
     = (Some (Errorf ''cannot delete system network acl bootstrap-nodes'' None), ex_db)"
proof -
  have n: "ACL_Name ex_acl \<noteq> BootstrapNodesNetworkACLName"
    by (simp add: ex_acl_def BootstrapNodesNetworkACLName_def)
  have n': "''allow-all'' \<noteq> BootstrapNodesNetworkACLName"
    by (simp add: BootstrapNodesNetworkACLName_def)
  have e: "exec_error ex_dbio = None"
    by (simp add: ex_dbio_def)
  show ?thesis
    using system_acl_immutable [of ex_dbio ex_acl ex_db "''allow-all''"] n n' e
    by (simp add: BootstrapNodesNetworkACLName_def)
qed

text \<open>
  C9, as amended. If the node list of the named route already holds the node name,
  AppendNodeToRoute returns no error and leaves the database as it was. For a node name
  with no comma in it, a call that returned no error on any database is followed, on a
  readable database, by a call with the same arguments that returns no error and leaves
  the database as the first call left it. A call that returns an error wrote nothing.
\<close>

theorem AppendNodeToRoute_idempotent:
  "(GetRoute io routeName db = Inr route \<and> nodeName \<in> set (Route_Nodes route) \<longrightarrow>
      AppendNodeToRoute io routeName nodeName db = (None, db)) \<and>
   (CHR '','' \<notin> set nodeName \<and>
    AppendNodeToRoute io routeName nodeName db = (None, db') \<and> query_error io' = None \<longrightarrow>
      AppendNodeToRoute io' routeName nodeName db' = (None, db')) \<and>
   (fst (AppendNodeToRoute io routeName nodeName db) \<noteq> None \<longrightarrow>
      snd (AppendNodeToRoute io routeName nodeName db) = db)"
proof -
  have "fst (AppendNodeToRoute io routeName nodeName db) \<noteq> None \<longrightarrow>
      snd (AppendNodeToRoute io routeName nodeName db) = db"
    by (auto simp: AppendNodeToRoute_def PutRoute_def q_PutNetworkRoute_def Let_def
        split: sum.splits option.splits)
  then show ?thesis
    using Append_present [of io routeName db route nodeName]
      Append_idem [of nodeName io routeName db db' io']
    by blast
qed

theorem AppendNodeToRoute_idempotent_witness:
  "CHR '','' \<notin> set ''b'' \<and> query_error ex_dbio = None \<and>
   fst (AppendNodeToRoute ex_dbio ''r'' ''b'' ex_db) = None \<and>
   map Rt_Nodes (network_routes (snd (AppendNodeToRoute ex_dbio ''r'' ''b'' ex_db))) = [''a,b''] \<and>
   AppendNodeToRoute ex_dbio ''r'' ''b'' (snd (AppendNodeToRoute ex_dbio ''r'' ''b'' ex_db))
     = (None, snd (AppendNodeToRoute ex_dbio ''r'' ''b'' ex_db))"
proof -
  have c: "CHR '','' \<notin> set ''b''" by simp
  have q: "query_error ex_dbio = None" by (simp add: ex_dbio_def)
  have f: "fst (AppendNodeToRoute ex_dbio ''r'' ''b'' ex_db) = None \<and>
      map Rt_Nodes (network_routes (snd (AppendNodeToRoute ex_dbio ''r'' ''b'' ex_db))) = [''a,b'']"
    by (simp add: AppendNodeToRoute_def GetRoute_def q_GetNetworkRoute_def dbRouteToAPIRoute_def
        PutRoute_def q_PutNetworkRoute_def NullString_def ex_db_def ex_dbio_def Let_def)
  then have a: "AppendNodeToRoute ex_dbio ''r'' ''b'' ex_db
      = (None, snd (AppendNodeToRoute ex_dbio ''r'' ''b'' ex_db))"
    by (metis prod.collapse)
  show ?thesis
    using AppendNodeToRoute_idempotent [of ex_dbio "''r''" ex_db undefined "''b''"
        "snd (AppendNodeToRoute ex_dbio ''r'' ''b'' ex_db)" ex_dbio] c q f a
    by blast
qed

text \<open>
  The claim as stated fails for a node name with a comma in it: the stored node list is
  the names joined by commas, so after \<open>b,c\<close> is appended the list read back holds
  \<open>b\<close> and \<open>c\<close> and not \<open>b,c\<close>, and the second call appends again.
\<close>

theorem AppendNodeToRoute_comma_counterexample:
  "map Rt_Nodes (network_routes (snd (AppendNodeToRoute ex_dbio ''r'' ''b,c'' ex_db)))
     = [''a,b,c''] \<and>
   fst (AppendNodeToRoute ex_dbio ''r'' ''b,c'' ex_db) = None \<and>
   fst (AppendNodeToRoute ex_dbio ''r'' ''b,c''
          (snd (AppendNodeToRoute ex_dbio ''r'' ''b,c'' ex_db))) = None \<and>
   map Rt_Nodes (network_routes (snd (AppendNodeToRoute ex_dbio ''r'' ''b,c''
      (snd (AppendNodeToRoute ex_dbio ''r'' ''b,c'' ex_db))))) = [''a,b,c,b,c'']"
  by (simp add: AppendNodeToRoute_def GetRoute_def q_GetNetworkRoute_def dbRouteToAPIRoute_def
      PutRoute_def q_PutNetworkRoute_def NullString_def ex_db_def ex_dbio_def Let_def)

section \<open>Bootstrap (package storage)\<close>

text \<open>
  The parts of the API messages that Bootstrap builds: roles with their rules, role
  bindings and groups with their subjects. The network ACL is the record of the
  section before.
\<close>

datatype RuleResource =
  RESOURCE_UNKNOWN | RESOURCE_VOTES | RESOURCE_ROLES | RESOURCE_ROLE_BINDINGS
  | RESOURCE_GROUPS | RESOURCE_NETWORK_ACLS | RESOURCE_ROUTES | RESOURCE_EDGES
  | RESOURCE_ALL

datatype RuleVerb = VERB_UNKNOWN | VERB_PUT | VERB_GET | VERB_DELETE | VERB_ALL

datatype SubjectType = SUBJECT_UNKNOWN | SUBJECT_NODE | SUBJECT_USER | SUBJECT_GROUP | SUBJECT_ALL

record Rule =
  Resources :: "RuleResource list"
  Verbs :: "RuleVerb list"

record Role =
  Role_Name :: string
  Role_Rules :: "Rule list"

record Subject =
  Subject_Name :: string
  Subject_Type :: SubjectType

record RoleBinding =
  RoleBinding_Name :: string
  RoleBinding_Role :: string
  RoleBinding_Subjects :: "Subject list"

record Group =
  Group_Name :: string
  Group_Subjects :: "Subject list"

text \<open>\<open>v1.ACLAction_ACTION_ACCEPT\<close>, \<open>math.MaxInt32\<close>, \<open>math.MinInt32\<close> and the defaults of
  the package.\<close>

definition ACTION_ACCEPT :: int where
  "ACTION_ACCEPT = 1"

definition MaxInt32 :: int where
  "MaxInt32 = 2147483647"

definition MinInt32 :: int where
  "MinInt32 = - 2147483648"

definition DefaultMeshDomain :: string where
  "DefaultMeshDomain = ''webmesh.internal''"

definition DefaultIPv4Network :: string where
  "DefaultIPv4Network = ''172.16.0.0/12''"

definition DefaultNetworkPolicy :: string where
  "DefaultNetworkPolicy = ''accept''"

definition DefaultMeshAdmin :: string where
  "DefaultMeshAdmin = ''admin''"

text \<open>A nil \<open>Voters\<close> and an empty one add the same subjects, none.\<close>

record BootstrapOptions =
  Opts_MeshDomain :: string
  Opts_IPv4Network :: string
  Opts_Admin :: string
  Opts_DefaultNetworkPolicy :: string
  Opts_BootstrapNodes :: "string list"
  Opts_Voters :: "string list"
  Opts_DisableRBAC :: bool

text \<open>The results; a prefix that was never assigned (the zero \<open>netip.Prefix\<close>) is
  \<open>None\<close>.\<close>

record 'p BootstrapResults =
  NetworkV4 :: "'p option"
  NetworkV6 :: "'p option"
  MeshDomain :: string

text \<open>
  The interface \<open>MeshDB\<close> with the methods of \<open>MeshState()\<close>, \<open>RBAC()\<close> and
  \<open>Networking()\<close> that Bootstrap calls. The implementation behind it is a parameter: any
  functions on any state \<open>'db\<close>. A read returns an error or a value, a write returns
  its error, if any, and the state after it.
\<close>

record ('db, 'p) MeshDB =
  MeshState_GetMeshDomain :: "'db \<Rightarrow> error + string"
  MeshState_GetIPv4Prefix :: "'db \<Rightarrow> error + 'p"
  MeshState_GetIPv6Prefix :: "'db \<Rightarrow> error + 'p"
  MeshState_SetIPv6Prefix :: "'p \<Rightarrow> 'db \<Rightarrow> error option \<times> 'db"
  MeshState_SetIPv4Prefix :: "'p \<Rightarrow> 'db \<Rightarrow> error option \<times> 'db"
  MeshState_SetMeshDomain :: "string \<Rightarrow> 'db \<Rightarrow> error option \<times> 'db"
  RBAC_PutRole :: "Role \<Rightarrow> 'db \<Rightarrow> error option \<times> 'db"
  RBAC_PutRoleBinding :: "RoleBinding \<Rightarrow> 'db \<Rightarrow> error option \<times> 'db"
  RBAC_PutGroup :: "Group \<Rightarrow> 'db \<Rightarrow> error option \<times> 'db"
  RBAC_SetEnabled :: "bool \<Rightarrow> 'db \<Rightarrow> error option \<times> 'db"
  Networking_PutNetworkACL :: "NetworkACL \<Rightarrow> 'db \<Rightarrow> error option \<times> 'db"

text \<open>
  What Bootstrap uses from outside the database: \<open>netip.ParsePrefix\<close>, the outcome of
  \<open>netutil.GenerateULA()\<close> for this call, and the names of the seeded roles, group and
  role bindings, constants of the package that the sources do not hold.
\<close>

record 'p bootstrap_env =
  ParsePrefix :: "string \<Rightarrow> error + 'p"
  GenerateULA :: "error + 'p"
  MeshAdminRole :: string
  MeshAdminRoleBinding :: string
  VotersRole :: string
  VotersGroup :: string
  BootstrapVotersRoleBinding :: string

text \<open>\<open>errors.IsKeyNotFound\<close>: the error is \<open>ErrKeyNotFound\<close> or wraps it.\<close>

fun IsKeyNotFound :: "error \<Rightarrow> bool" where
  "IsKeyNotFound ErrKeyNotFound = True"
| "IsKeyNotFound (Errorf msg (Some e)) = IsKeyNotFound e"
| "IsKeyNotFound e = False"

text \<open>The repeated \<open>if err != nil { err = fmt.Errorf("...: %w", err); return }\<close>.\<close>

definition or_return ::
  "string \<Rightarrow> error option \<times> 'db \<Rightarrow> ('db \<Rightarrow> error option \<times> 'db) \<Rightarrow> error option \<times> 'db" where
  "or_return msg r k =
     (case r of
        (Some err, db') \<Rightarrow> (Some (Errorf msg (Some err)), db')
      | (None, db') \<Rightarrow> k db')"

text \<open>The subjects of the voters group: the admin, the bootstrap nodes, the voters.\<close>

definition voters_subjects :: "BootstrapOptions \<Rightarrow> Subject list" where
  "voters_subjects opts =
     \<lparr>Subject_Name = Opts_Admin opts, Subject_Type = SUBJECT_NODE\<rparr>
     # map (\<lambda>id. \<lparr>Subject_Name = id, Subject_Type = SUBJECT_NODE\<rparr>) (Opts_BootstrapNodes opts)
     @ map (\<lambda>voter. \<lparr>Subject_Name = voter, Subject_Type = SUBJECT_NODE\<rparr>) (Opts_Voters opts)"

text \<open>The writes of a first bootstrap, in the order of the source, up to the first error.\<close>

definition seed ::
  "('db, 'p) MeshDB \<Rightarrow> 'p bootstrap_env \<Rightarrow> BootstrapOptions \<Rightarrow> 'p \<Rightarrow> 'p \<Rightarrow> 'db
     \<Rightarrow> error option \<times> 'db" where
  "seed db env opts v4 v6 s =
     or_return ''set IPv6 prefix to db: '' (MeshState_SetIPv6Prefix db v6 s) (\<lambda>s.
     or_return ''set IPv4 prefix to db: '' (MeshState_SetIPv4Prefix db v4 s) (\<lambda>s.
     or_return ''set mesh domain to db: '' (MeshState_SetMeshDomain db (Opts_MeshDomain opts) s) (\<lambda>s.
     or_return ''create admin role: ''
       (RBAC_PutRole db
          \<lparr>Role_Name = MeshAdminRole env,
           Role_Rules = [\<lparr>Resources = [RESOURCE_ALL], Verbs = [VERB_ALL]\<rparr>]\<rparr> s) (\<lambda>s.
     or_return ''create admin role binding: ''
       (RBAC_PutRoleBinding db
          \<lparr>RoleBinding_Name = MeshAdminRole env,
           RoleBinding_Role = MeshAdminRoleBinding env,
           RoleBinding_Subjects =
             [\<lparr>Subject_Name = Opts_Admin opts, Subject_Type = SUBJECT_NODE\<rparr>,
              \<lparr>Subject_Name = Opts_Admin opts, Subject_Type = SUBJECT_USER\<rparr>]\<rparr> s) (\<lambda>s.
     or_return ''create voters role: ''
       (RBAC_PutRole db
          \<lparr>Role_Name = VotersRole env,
           Role_Rules = [\<lparr>Resources = [RESOURCE_VOTES], Verbs = [VERB_PUT]\<rparr>]\<rparr> s) (\<lambda>s.
     or_return ''create voters group: ''
       (RBAC_PutGroup db
          \<lparr>Group_Name = VotersGroup env, Group_Subjects = voters_subjects opts\<rparr> s) (\<lambda>s.
     or_return ''create voters role binding: ''
       (RBAC_PutRoleBinding db
          \<lparr>RoleBinding_Name = BootstrapVotersRoleBinding env,
           RoleBinding_Role = VotersRole env,
           RoleBinding_Subjects =
             [\<lparr>Subject_Name = VotersGroup env, Subject_Type = SUBJECT_GROUP\<rparr>]\<rparr> s) (\<lambda>s.
     or_return ''disable rbac: ''
       (if Opts_DisableRBAC opts then RBAC_SetEnabled db False s else (None, s)) (\<lambda>s.
     or_return ''create bootstrap nodes network acl: ''
       (Networking_PutNetworkACL db
          \<lparr>ACL_Name = BootstrapNodesNetworkACLName,
           ACL_Priority = MaxInt32,
           ACL_Action = ACTION_ACCEPT,
           ACL_SourceNodes = [''group:'' @ VotersGroup env],
           ACL_DestinationNodes = [''group:'' @ VotersGroup env],
           ACL_SourceCidrs = [], ACL_DestinationCidrs = [],
           ACL_Protocols = [], ACL_Ports = []\<rparr> s) (\<lambda>s.
     or_return ''create default accept network ACL: ''
       (if Opts_DefaultNetworkPolicy opts = ''accept'' then
          Networking_PutNetworkACL db
            \<lparr>ACL_Name = ''default-accept'',
             ACL_Priority = MinInt32,
             ACL_Action = ACTION_ACCEPT,
             ACL_SourceNodes = [''*''],
             ACL_DestinationNodes = [''*''],
             ACL_SourceCidrs = [''*''],
             ACL_DestinationCidrs = [''*''],
             ACL_Protocols = [], ACL_Ports = []\<rparr> s
        else (None, s)) (\<lambda>s.
     (None, s))))))))))))"

text \<open>The four defaults set at the start of Bootstrap.\<close>

definition with_defaults :: "BootstrapOptions \<Rightarrow> BootstrapOptions" where
  "with_defaults opts =
     (let opts = (if Opts_IPv4Network opts = [] then opts\<lparr>Opts_IPv4Network := DefaultIPv4Network\<rparr> else opts);
          opts = (if Opts_MeshDomain opts = [] then opts\<lparr>Opts_MeshDomain := DefaultMeshDomain\<rparr> else opts);
          opts = (if Opts_Admin opts = [] then opts\<lparr>Opts_Admin := DefaultMeshAdmin\<rparr> else opts);
          opts = (if Opts_DefaultNetworkPolicy opts = [] then
                    opts\<lparr>Opts_DefaultNetworkPolicy := DefaultNetworkPolicy\<rparr> else opts)
      in opts)"

text \<open>
  Bootstrap returns its named results as they stand at the return, the error and the
  state. On a failed read the value that comes with the error is taken to be the zero
  value.
\<close>

definition Bootstrap ::
  "('db, 'p) MeshDB \<Rightarrow> 'p bootstrap_env \<Rightarrow> BootstrapOptions \<Rightarrow> 'db
     \<Rightarrow> 'p BootstrapResults \<times> error option \<times> 'db" where
  "Bootstrap db env opts0 s =
     (let opts = with_defaults opts0;
          results = \<lparr>NetworkV4 = None, NetworkV6 = None, MeshDomain = Opts_MeshDomain opts\<rparr>;
          fresh =
            (case ParsePrefix env (Opts_IPv4Network opts) of
               Inl err \<Rightarrow> (results, Some (Errorf ''parse IPv4 network: '' (Some err)), s)
             | Inr v4 \<Rightarrow>
                 (case GenerateULA env of
                    Inl err \<Rightarrow>
                      (results\<lparr>NetworkV4 := Some v4\<rparr>,
                       Some (Errorf ''generate ULA: '' (Some err)), s)
                  | Inr v6 \<Rightarrow>
                      (let (err, s') = seed db env opts v4 v6 s
                       in (results\<lparr>NetworkV4 := Some v4, NetworkV6 := Some v6\<rparr>, err, s'))))
      in (case MeshState_GetMeshDomain db s of
            Inl err \<Rightarrow>
              if \<not> IsKeyNotFound err then
                (results, Some (Errorf ''get mesh domain: '' (Some err)), s)
              else fresh
          | Inr d \<Rightarrow>
              (case MeshState_GetIPv4Prefix db s of
                 Inl err \<Rightarrow> (results, Some (Errorf ''get IPv4 prefix: '' (Some err)), s)
               | Inr v4 \<Rightarrow>
                   (case MeshState_GetIPv6Prefix db s of
                      Inl err \<Rightarrow>
                        (results\<lparr>NetworkV4 := Some v4\<rparr>,
                         Some (Errorf ''get IPv6 prefix: '' (Some err)), s)
                    | Inr v6 \<Rightarrow>
                        (case MeshState_GetMeshDomain db s of
                           Inl err \<Rightarrow>
                             (results\<lparr>NetworkV4 := Some v4, NetworkV6 := Some v6,
                                MeshDomain := []\<rparr>,
                              Some (Errorf ''get mesh domain: '' (Some err)), s)
                         | Inr d' \<Rightarrow>
                             (\<lparr>NetworkV4 = Some v4, NetworkV6 = Some v6, MeshDomain = d'\<rparr>,
                              Some ErrAlreadyBootstrapped, s))))))"

text \<open>
  Modelled from the spec: the implementations of \<open>MeshState\<close>, \<open>RBAC\<close> and
  \<open>Networking\<close> behind the interface are not among the sources. The spec gives disjoint
  namespaces per entity kind, each entry addressable by a stable name: what a successful
  write of a prefix or of the mesh domain stored is what the read of that key returns,
  and no successful write changes what the other mesh-state keys read.
\<close>

definition keeps_mesh_state :: "('db, 'p) MeshDB \<Rightarrow> ('a \<Rightarrow> 'db \<Rightarrow> error option \<times> 'db) \<Rightarrow> bool" where
  "keeps_mesh_state db f =
     (\<forall>x s s'. f x s = (None, s') \<longrightarrow>
        MeshState_GetMeshDomain db s' = MeshState_GetMeshDomain db s \<and>
        MeshState_GetIPv4Prefix db s' = MeshState_GetIPv4Prefix db s \<and>
        MeshState_GetIPv6Prefix db s' = MeshState_GetIPv6Prefix db s)"

definition lawful :: "('db, 'p) MeshDB \<Rightarrow> bool" where
  "lawful db =
     ((\<forall>p s s'. MeshState_SetIPv6Prefix db p s = (None, s') \<longrightarrow>
         MeshState_GetIPv6Prefix db s' = Inr p) \<and>
      (\<forall>p s s'. MeshState_SetIPv4Prefix db p s = (None, s') \<longrightarrow>
         MeshState_GetIPv4Prefix db s' = Inr p \<and>
         MeshState_GetIPv6Prefix db s' = MeshState_GetIPv6Prefix db s) \<and>
      (\<forall>d s s'. MeshState_SetMeshDomain db d s = (None, s') \<longrightarrow>
         MeshState_GetMeshDomain db s' = Inr d \<and>
         MeshState_GetIPv4Prefix db s' = MeshState_GetIPv4Prefix db s \<and>
         MeshState_GetIPv6Prefix db s' = MeshState_GetIPv6Prefix db s) \<and>
      keeps_mesh_state db (RBAC_PutRole db) \<and>
      keeps_mesh_state db (RBAC_PutRoleBinding db) \<and>
      keeps_mesh_state db (RBAC_PutGroup db) \<and>
      keeps_mesh_state db (RBAC_SetEnabled db) \<and>
      keeps_mesh_state db (Networking_PutNetworkACL db))"

subsection \<open>A database in memory\<close>

text \<open>An implementation of the interface whose writes never fail, with prefixes as text.\<close>

record memdb =
  mem_domain :: "string option"
  mem_v4 :: "string option"
  mem_v6 :: "string option"
  mem_roles :: "Role list"
  mem_rolebindings :: "RoleBinding list"
  mem_groups :: "Group list"
  mem_rbac_enabled :: bool
  mem_acls :: "NetworkACL list"

definition mem_get :: "'a option \<Rightarrow> error + 'a" where
  "mem_get v = (case v of None \<Rightarrow> Inl ErrKeyNotFound | Some x \<Rightarrow> Inr x)"

definition mem_MeshDB :: "(memdb, string) MeshDB" where
  "mem_MeshDB =
     \<lparr>MeshState_GetMeshDomain = (\<lambda>s. mem_get (mem_domain s)),
      MeshState_GetIPv4Prefix = (\<lambda>s. mem_get (mem_v4 s)),
      MeshState_GetIPv6Prefix = (\<lambda>s. mem_get (mem_v6 s)),
      MeshState_SetIPv6Prefix = (\<lambda>p s. (None, s\<lparr>mem_v6 := Some p\<rparr>)),
      MeshState_SetIPv4Prefix = (\<lambda>p s. (None, s\<lparr>mem_v4 := Some p\<rparr>)),
      MeshState_SetMeshDomain = (\<lambda>d s. (None, s\<lparr>mem_domain := Some d\<rparr>)),
      RBAC_PutRole =
        (\<lambda>r s. (None, s\<lparr>mem_roles :=
           r # filter (\<lambda>x. Role_Name x \<noteq> Role_Name r) (mem_roles s)\<rparr>)),
      RBAC_PutRoleBinding =
        (\<lambda>r s. (None, s\<lparr>mem_rolebindings :=
           r # filter (\<lambda>x. RoleBinding_Name x \<noteq> RoleBinding_Name r) (mem_rolebindings s)\<rparr>)),
      RBAC_PutGroup =
        (\<lambda>g s. (None, s\<lparr>mem_groups :=
           g # filter (\<lambda>x. Group_Name x \<noteq> Group_Name g) (mem_groups s)\<rparr>)),
      RBAC_SetEnabled = (\<lambda>b s. (None, s\<lparr>mem_rbac_enabled := b\<rparr>)),
      Networking_PutNetworkACL =
        (\<lambda>a s. (None, s\<lparr>mem_acls :=
           a # filter (\<lambda>x. ACL_Name x \<noteq> ACL_Name a) (mem_acls s)\<rparr>))\<rparr>"

definition mem_empty :: memdb where
  "mem_empty =
     \<lparr>mem_domain = None, mem_v4 = None, mem_v6 = None, mem_roles = [],
      mem_rolebindings = [], mem_groups = [], mem_rbac_enabled = True, mem_acls = []\<rparr>"

definition ex_bootstrap_env :: "string bootstrap_env" where
  "ex_bootstrap_env =
     \<lparr>ParsePrefix = (\<lambda>s. if s = [] then Inl (ErrDriver ''no prefix'') else Inr s),
      GenerateULA = Inr ''fd3c:9a1e:77b0::/48'',
      MeshAdminRole = ''mesh-admin'',
      MeshAdminRoleBinding = ''mesh-admin'',
      VotersRole = ''voters'',
      VotersGroup = ''voters'',
      BootstrapVotersRoleBinding = ''bootstrap-voters''\<rparr>"

definition ex_opts :: BootstrapOptions where
  "ex_opts =
     \<lparr>Opts_MeshDomain = [], Opts_IPv4Network = ''10.10.0.0/16'', Opts_Admin = [],
      Opts_DefaultNetworkPolicy = [], Opts_BootstrapNodes = [''node-a''],
      Opts_Voters = [], Opts_DisableRBAC = False\<rparr>"

definition ex_opts' :: BootstrapOptions where
  "ex_opts' =
     \<lparr>Opts_MeshDomain = ''other.internal'', Opts_IPv4Network = ''192.168.0.0/16'',
      Opts_Admin = ''root'', Opts_DefaultNetworkPolicy = ''deny'', Opts_BootstrapNodes = [],
      Opts_Voters = [''node-b''], Opts_DisableRBAC = True\<rparr>"

subsection \<open>Properties of Bootstrap\<close>

lemma Bootstrap_existing:
  assumes "MeshState_GetMeshDomain db s = Inr d"
  shows "snd (snd (Bootstrap db env opts s)) = s"
    and "MeshState_GetIPv4Prefix db s = Inr v4 \<Longrightarrow> MeshState_GetIPv6Prefix db s = Inr v6 \<Longrightarrow>
         Bootstrap db env opts s
           = (\<lparr>NetworkV4 = Some v4, NetworkV6 = Some v6, MeshDomain = d\<rparr>,
              Some ErrAlreadyBootstrapped, s)"
  using assms by (auto simp: Bootstrap_def Let_def split: sum.splits)

lemma lawful_mem: "lawful mem_MeshDB"
  by (simp add: lawful_def keeps_mesh_state_def mem_MeshDB_def mem_get_def)

lemma or_return_NoneE:
  assumes "or_return msg r k = (None, s')"
  obtains s1 where "r = (None, s1)" and "k s1 = (None, s')"
  using assms by (auto simp: or_return_def split: prod.splits option.splits)

lemma law_v6:
  "lawful db \<Longrightarrow> MeshState_SetIPv6Prefix db p s = (None, s') \<Longrightarrow>
   MeshState_GetIPv6Prefix db s' = Inr p"
  unfolding lawful_def by blast

lemma law_v4:
  "lawful db \<Longrightarrow> MeshState_SetIPv4Prefix db p s = (None, s') \<Longrightarrow>
   MeshState_GetIPv4Prefix db s' = Inr p \<and>
   MeshState_GetIPv6Prefix db s' = MeshState_GetIPv6Prefix db s"
  unfolding lawful_def by blast

lemma law_domain:
  "lawful db \<Longrightarrow> MeshState_SetMeshDomain db d s = (None, s') \<Longrightarrow>
   MeshState_GetMeshDomain db s' = Inr d \<and>
   MeshState_GetIPv4Prefix db s' = MeshState_GetIPv4Prefix db s \<and>
   MeshState_GetIPv6Prefix db s' = MeshState_GetIPv6Prefix db s"
  unfolding lawful_def by blast

lemma law_keeps:
  assumes "lawful db"
  shows "keeps_mesh_state db (RBAC_PutRole db)"
    and "keeps_mesh_state db (RBAC_PutRoleBinding db)"
    and "keeps_mesh_state db (RBAC_PutGroup db)"
    and "keeps_mesh_state db (RBAC_SetEnabled db)"
    and "keeps_mesh_state db (Networking_PutNetworkACL db)"
  using assms by (simp_all add: lawful_def)

lemma keeps_step:
  assumes "keeps_mesh_state db f" and "f x s = (None, s')"
  shows "MeshState_GetMeshDomain db s' = MeshState_GetMeshDomain db s \<and>
         MeshState_GetIPv4Prefix db s' = MeshState_GetIPv4Prefix db s \<and>
         MeshState_GetIPv6Prefix db s' = MeshState_GetIPv6Prefix db s"
  using assms unfolding keeps_mesh_state_def by blast

lemma keeps_step_if:
  assumes "keeps_mesh_state db f" and "(if b then f x s else (None, s)) = (None, s')"
  shows "MeshState_GetMeshDomain db s' = MeshState_GetMeshDomain db s \<and>
         MeshState_GetIPv4Prefix db s' = MeshState_GetIPv4Prefix db s \<and>
         MeshState_GetIPv6Prefix db s' = MeshState_GetIPv6Prefix db s"
  using assms unfolding keeps_mesh_state_def by (auto split: if_splits)

lemma seed_reads:
  assumes law: "lawful db" and ok: "seed db env opts v4 v6 s = (None, s')"
  shows "MeshState_GetMeshDomain db s' = Inr (Opts_MeshDomain opts) \<and>
         MeshState_GetIPv4Prefix db s' = Inr v4 \<and>
         MeshState_GetIPv6Prefix db s' = Inr v6"
  using ok unfolding seed_def
  apply (elim or_return_NoneE)
  apply (drule law_v6 [OF law])
  apply (drule law_v4 [OF law])
  apply (drule law_domain [OF law])
  apply (drule keeps_step [OF law_keeps(1) [OF law]])+
  apply (drule keeps_step [OF law_keeps(2) [OF law]])+
  apply (drule keeps_step [OF law_keeps(3) [OF law]])+
  apply (drule keeps_step_if [OF law_keeps(4) [OF law]])
  apply (drule keeps_step [OF law_keeps(5) [OF law]])
  apply (drule keeps_step_if [OF law_keeps(5) [OF law]])
  apply simp
  done

lemma Bootstrap_fresh:
  assumes "Bootstrap db env opts s = (r, None, s1)"
  shows "\<exists>v4 v6. seed db env (with_defaults opts) v4 v6 s = (None, s1) \<and>
           r = \<lparr>NetworkV4 = Some v4, NetworkV6 = Some v6,
                MeshDomain = Opts_MeshDomain (with_defaults opts)\<rparr>"
  using assms
  by (auto simp: Bootstrap_def Let_def split: sum.splits if_splits prod.splits)

lemma Bootstrap_twice:
  assumes "lawful db" and "Bootstrap db env opts s = (r, None, s1)"
  shows "Bootstrap db env' opts' s1 = (r, Some ErrAlreadyBootstrapped, s1)"
proof -
  from Bootstrap_fresh [OF assms(2)] obtain v4 v6
    where sd: "seed db env (with_defaults opts) v4 v6 s = (None, s1)"
      and r: "r = \<lparr>NetworkV4 = Some v4, NetworkV6 = Some v6,
                MeshDomain = Opts_MeshDomain (with_defaults opts)\<rparr>"
    by blast
  from seed_reads [OF assms(1) sd] Bootstrap_existing(2) [of db s1 _ v4 v6 env' opts']
  show ?thesis unfolding r by blast
qed

text \<open>
  C8. When the mesh domain can be read, Bootstrap writes nothing, whatever else happens;
  when the two prefixes can be read as well, it returns them and the stored domain with
  ErrAlreadyBootstrapped. After a Bootstrap that returned no error, on a database that
  reads back what was written to it, a second Bootstrap, with any options, returns the
  results of the first with ErrAlreadyBootstrapped and leaves the state as it was.
\<close>

theorem Bootstrap_idempotent:
  "(MeshState_GetMeshDomain db s = Inr d \<longrightarrow> snd (snd (Bootstrap db env opts s)) = s) \<and>
   (MeshState_GetMeshDomain db s = Inr d \<and> MeshState_GetIPv4Prefix db s = Inr v4 \<and>
    MeshState_GetIPv6Prefix db s = Inr v6 \<longrightarrow>
      Bootstrap db env opts s
        = (\<lparr>NetworkV4 = Some v4, NetworkV6 = Some v6, MeshDomain = d\<rparr>,
           Some ErrAlreadyBootstrapped, s)) \<and>
   (lawful db \<and> Bootstrap db env opts s = (r, None, s1) \<longrightarrow>
      Bootstrap db env' opts' s1 = (r, Some ErrAlreadyBootstrapped, s1))"
proof -
  have "MeshState_GetMeshDomain db s = Inr d \<longrightarrow> snd (snd (Bootstrap db env opts s)) = s"
    by (simp add: Bootstrap_existing(1))
  moreover have "MeshState_GetMeshDomain db s = Inr d \<and>
      MeshState_GetIPv4Prefix db s = Inr v4 \<and> MeshState_GetIPv6Prefix db s = Inr v6 \<longrightarrow>
      Bootstrap db env opts s
        = (\<lparr>NetworkV4 = Some v4, NetworkV6 = Some v6, MeshDomain = d\<rparr>,
           Some ErrAlreadyBootstrapped, s)"
    by (simp add: Bootstrap_existing(2))
  moreover have "lawful db \<and> Bootstrap db env opts s = (r, None, s1) \<longrightarrow>
      Bootstrap db env' opts' s1 = (r, Some ErrAlreadyBootstrapped, s1)"
    by (auto intro: Bootstrap_twice)
  ultimately show ?thesis by blast
qed

theorem Bootstrap_idempotent_witness:
  "lawful mem_MeshDB \<and>
   fst (Bootstrap mem_MeshDB ex_bootstrap_env ex_opts mem_empty)
     = \<lparr>NetworkV4 = Some ''10.10.0.0/16'', NetworkV6 = Some ''fd3c:9a1e:77b0::/48'',
        MeshDomain = ''webmesh.internal''\<rparr> \<and>
   fst (snd (Bootstrap mem_MeshDB ex_bootstrap_env ex_opts mem_empty)) = None \<and>
   Bootstrap mem_MeshDB ex_bootstrap_env ex_opts'
       (snd (snd (Bootstrap mem_MeshDB ex_bootstrap_env ex_opts mem_empty)))
     = (\<lparr>NetworkV4 = Some ''10.10.0.0/16'', NetworkV6 = Some ''fd3c:9a1e:77b0::/48'',
         MeshDomain = ''webmesh.internal''\<rparr>,
        Some ErrAlreadyBootstrapped,
        snd (snd (Bootstrap mem_MeshDB ex_bootstrap_env ex_opts mem_empty)))"
proof -
  have f: "fst (Bootstrap mem_MeshDB ex_bootstrap_env ex_opts mem_empty)
      = \<lparr>NetworkV4 = Some ''10.10.0.0/16'', NetworkV6 = Some ''fd3c:9a1e:77b0::/48'',
         MeshDomain = ''webmesh.internal''\<rparr> \<and>
     fst (snd (Bootstrap mem_MeshDB ex_bootstrap_env ex_opts mem_empty)) = None"
    by (simp add: Bootstrap_def seed_def or_return_def with_defaults_def mem_MeshDB_def
        mem_empty_def ex_bootstrap_env_def ex_opts_def mem_get_def Let_def
        DefaultMeshDomain_def DefaultNetworkPolicy_def DefaultMeshAdmin_def)
  then have b: "Bootstrap mem_MeshDB ex_bootstrap_env ex_opts mem_empty
      = (\<lparr>NetworkV4 = Some ''10.10.0.0/16'', NetworkV6 = Some ''fd3c:9a1e:77b0::/48'',
          MeshDomain = ''webmesh.internal''\<rparr>, None,
         snd (snd (Bootstrap mem_MeshDB ex_bootstrap_env ex_opts mem_empty)))"
    by (metis prod.collapse)
  show ?thesis
    using Bootstrap_idempotent [of mem_MeshDB mem_empty undefined ex_bootstrap_env ex_opts
        undefined undefined
        "\<lparr>NetworkV4 = Some ''10.10.0.0/16'', NetworkV6 = Some ''fd3c:9a1e:77b0::/48'',
          MeshDomain = ''webmesh.internal''\<rparr>"
        "snd (snd (Bootstrap mem_MeshDB ex_bootstrap_env ex_opts mem_empty))"
        ex_bootstrap_env ex_opts'] lawful_mem f b
    by blast
qed

section \<open>Peer resolution (pkg/services/svcutil/peers.go)\<close>

text \<open>
  A node of the graph (\<open>peers.Node\<close>) with the fields that peer resolution reads. An
  address is a \<open>netip.Prefix\<close>; one that is not valid (\<open>IsValid()\<close> is false) is
  \<open>None\<close>. Prefixes are values of any type \<open>'p\<close>, compared with equality as
  \<open>==\<close> compares them.
\<close>

record 'p Node =
  Node_ID :: string
  Node_PublicKey :: string
  Node_PrimaryEndpoint :: string
  Node_WireGuardEndpoints :: "string list"
  Node_ZoneAwarenessID :: string
  Node_PrivateIPv4 :: "'p option"
  Node_NetworkIPv6 :: "'p option"

text \<open>The message \<open>v1.WireGuardPeer\<close>.\<close>

record WireGuardPeer =
  Peer_Id :: string
  Peer_PublicKey :: string
  Peer_ZoneAwarenessId :: string
  Peer_PrimaryEndpoint :: string
  Peer_WireguardEndpoints :: "string list"
  Peer_AddressIpv4 :: string
  Peer_AddressIpv6 :: string
  Peer_AllowedIps :: "string list"
  Peer_AllowedRoutes :: "string list"

text \<open>
  \<open>networking.AdjacencyMap\<close>, a Go map from a node to the map of its targets. Ranging
  over a Go map visits the keys in an order that the language leaves open; here the
  targets of a node come as a list, in the order of one such visit, and every property
  below holds for every adjacency map, so for every order. A node that is no key has no
  targets.
\<close>

type_synonym AdjacencyMap = "(string \<times> string list) list"

text \<open>
  What peer resolution reads from the replicated state: the vertices of the graph, the
  filtered adjacency map of a node (\<open>FilterGraph\<close>, not among the sources: a
  parameter), the routes of a node (\<open>GetRoutesByNode\<close>), and from package netip the
  parser and the printer of prefixes.
\<close>

record 'p mesh =
  graph_nodes :: "'p Node list"
  nw_FilterGraph :: "string \<Rightarrow> error + AdjacencyMap"
  nw_GetRoutesByNode :: "string \<Rightarrow> error + Route list"
  netip_ParsePrefix :: "string \<Rightarrow> error + 'p"
  Prefix_String :: "'p \<Rightarrow> string"


text \<open>
  Modelled from the spec: the graph of package peers is not among the sources. Node IDs
  are unique and a vertex is addressed by its node ID, so \<open>graph.Vertex\<close> is the node
  with that ID, or an error when there is none.
\<close>

definition graph_Vertex :: "'p mesh \<Rightarrow> string \<Rightarrow> error + 'p Node" where
  "graph_Vertex m hash =
     (case find (\<lambda>n. Node_ID n = hash) (graph_nodes m) of
        None \<Rightarrow> Inl (ErrDriver ''vertex not found'')
      | Some n \<Rightarrow> Inr n)"

definition targets_of :: "AdjacencyMap \<Rightarrow> string \<Rightarrow> string list" where
  "targets_of adjacencyMap k = (case map_of adjacencyMap k of None \<Rightarrow> [] | Some ts \<Rightarrow> ts)"

text \<open>\<open>contains\<close>, and the loop that appends each element that the list does not hold
  yet.\<close>

fun contains :: "'p list \<Rightarrow> 'p \<Rightarrow> bool" where
  "contains [] s = False"
| "contains (v # ss) s = (if v = s then True else contains ss s)"

fun append_missing :: "'p list \<Rightarrow> 'p list \<Rightarrow> 'p list" where
  "append_missing acc [] = acc"
| "append_missing acc (x # xs) =
     append_missing (if \<not> contains acc x then acc @ [x] else acc) xs"

text \<open>
  The two nested loops over the routes of a node and their destination CIDRs: a CIDR
  that does not parse ends the call with an error; a prefix is appended unless the list
  built so far or the routes of the requesting node hold it.
\<close>

fun append_cidrs :: "'p mesh \<Rightarrow> 'p list \<Rightarrow> string list \<Rightarrow> 'p list \<Rightarrow> error + 'p list" where
  "append_cidrs m thisRoutes [] allowedIPs = Inr allowedIPs"
| "append_cidrs m thisRoutes (cidr # cidrs) allowedIPs =
     (case netip_ParsePrefix m cidr of
        Inl err \<Rightarrow> Inl (Errorf ''parse prefix: '' (Some err))
      | Inr pfx \<Rightarrow>
          append_cidrs m thisRoutes cidrs
            (if \<not> contains allowedIPs pfx \<and> \<not> contains thisRoutes pfx
             then allowedIPs @ [pfx] else allowedIPs))"

text \<open>
  The block that \<open>recursePeers\<close> runs for the direct peer (on empty lists) and
  \<open>recurseEdges\<close> runs, word for word, for each target: the node's own addresses, then
  its routes, or else the routes of the requesting node.
\<close>

definition valid_prefix :: "'p option \<Rightarrow> 'p list" where
  "valid_prefix p = (case p of Some x \<Rightarrow> [x] | None \<Rightarrow> [])"

definition contribution ::
  "'p mesh \<Rightarrow> 'p list \<Rightarrow> 'p Node \<Rightarrow> 'p list \<Rightarrow> 'p list \<Rightarrow> error + ('p list \<times> 'p list)" where
  "contribution m thisRoutes node allowedIPs allowedRoutes =
     (let allowedIPs = allowedIPs @ valid_prefix (Node_PrivateIPv4 node);
          allowedIPs = allowedIPs @ valid_prefix (Node_NetworkIPv6 node)
      in (case nw_GetRoutesByNode m (Node_ID node) of
            Inl err \<Rightarrow> Inl (Errorf ''get routes by node: '' (Some err))
          | Inr routes \<Rightarrow>
              if length routes > 0 then
                (case append_cidrs m thisRoutes (concat (map Route_DestinationCidrs routes))
                        allowedIPs of
                   Inl err \<Rightarrow> Inl err
                 | Inr allowedIPs \<Rightarrow> Inr (allowedIPs, allowedRoutes))
              else if length thisRoutes > 0 then
                Inr (allowedIPs, append_missing allowedRoutes thisRoutes)
              else Inr (allowedIPs, allowedRoutes)))"

text \<open>
  \<open>recurseEdges\<close> and its loop over the targets. The visited set is a Go map shared
  with the callee, so it is returned with the result. A nil \<open>visited\<close> is the empty
  set.
\<close>

function recurseEdges ::
    "'p mesh \<Rightarrow> AdjacencyMap \<Rightarrow> string \<Rightarrow> 'p list \<Rightarrow> 'p Node \<Rightarrow> string set
       \<Rightarrow> error + ('p list \<times> 'p list \<times> string set)"
  and edge_targets ::
    "'p mesh \<Rightarrow> AdjacencyMap \<Rightarrow> string \<Rightarrow> 'p list \<Rightarrow> string list \<Rightarrow> string set
       \<Rightarrow> 'p list \<Rightarrow> 'p list \<Rightarrow> error + ('p list \<times> 'p list \<times> string set)"
  where
  "recurseEdges m adjacencyMap thisPeer thisRoutes node visited =
     edge_targets m adjacencyMap thisPeer thisRoutes
       (targets_of adjacencyMap (Node_ID node)) (insert (Node_ID node) visited) [] []"
| "edge_targets m adjacencyMap thisPeer thisRoutes [] visited allowedIPs allowedRoutes =
     Inr (allowedIPs, allowedRoutes, visited)"
| "edge_targets m adjacencyMap thisPeer thisRoutes (target # targets) visited
       allowedIPs allowedRoutes =
     (if target = thisPeer then
        edge_targets m adjacencyMap thisPeer thisRoutes targets visited allowedIPs allowedRoutes
      else if target \<in> set (targets_of adjacencyMap thisPeer) then
        edge_targets m adjacencyMap thisPeer thisRoutes targets visited allowedIPs allowedRoutes
      else if target \<in> visited then
        edge_targets m adjacencyMap thisPeer thisRoutes targets visited allowedIPs allowedRoutes
      else
        (case graph_Vertex m target of
           Inl err \<Rightarrow> Inl (Errorf ''get vertex: '' (Some err))
         | Inr targetNode \<Rightarrow>
             (case contribution m thisRoutes targetNode allowedIPs allowedRoutes of
                Inl err \<Rightarrow> Inl err
              | Inr (allowedIPs, allowedRoutes) \<Rightarrow>
                  (case recurseEdges m adjacencyMap thisPeer thisRoutes targetNode
                          (insert target visited) of
                     Inl err \<Rightarrow> Inl (Errorf ''recurse allowed IPs: '' (Some err))
                   | Inr (ips, ipRoutes, visited') \<Rightarrow>
                       edge_targets m adjacencyMap thisPeer thisRoutes targets visited'
                         (append_missing allowedIPs ips)
                         (append_missing allowedRoutes ipRoutes)))))"
  by pat_completeness auto


text \<open>Termination on every graph, cyclic or not: a call only adds to the visited set, and
  each target that is expanded is one more visited node of the finitely many in the map.\<close>

lemma visited_grows:
  shows "recurseEdges_edge_targets_dom (Inl (m, adjacencyMap, thisPeer, thisRoutes, node, visited)) \<Longrightarrow>
         (\<forall>ips rts v'. recurseEdges m adjacencyMap thisPeer thisRoutes node visited = Inr (ips, rts, v')
            \<longrightarrow> visited \<subseteq> v')"
    and "recurseEdges_edge_targets_dom
           (Inr (m, adjacencyMap, thisPeer, thisRoutes, targets, visited, allowedIPs, allowedRoutes)) \<Longrightarrow>
         (\<forall>ips rts v'. edge_targets m adjacencyMap thisPeer thisRoutes targets visited
              allowedIPs allowedRoutes = Inr (ips, rts, v')
            \<longrightarrow> visited \<subseteq> v')"
proof (induct rule: recurseEdges_edge_targets.pinduct)
  case (1 m adjacencyMap thisPeer thisRoutes node visited)
  then show ?case by (auto simp: recurseEdges.psimps)
next
  case (2 m adjacencyMap thisPeer thisRoutes visited allowedIPs allowedRoutes)
  then show ?case by (simp add: edge_targets.psimps)
next
  case (3 m adjacencyMap thisPeer thisRoutes target targets visited allowedIPs allowedRoutes)
  show ?case
  proof (intro allI impI)
    fix ips rts v'
    assume r: "edge_targets m adjacencyMap thisPeer thisRoutes (target # targets) visited
                 allowedIPs allowedRoutes = Inr (ips, rts, v')"
    show "visited \<subseteq> v'"
    proof (cases "target = thisPeer \<or> target \<in> set (targets_of adjacencyMap thisPeer)
                    \<or> target \<in> visited")
      case True
      with r 3(1) have "edge_targets m adjacencyMap thisPeer thisRoutes targets visited
                 allowedIPs allowedRoutes = Inr (ips, rts, v')"
        by (auto simp: edge_targets.psimps split: if_splits)
      with True 3(2,3,4) show ?thesis by (auto split: if_splits)
    next
      case False
      with r 3(1) obtain targetNode ips1 rts1 ips2 rts2 v2 where
        v: "graph_Vertex m target = Inr targetNode"
        and c: "contribution m thisRoutes targetNode allowedIPs allowedRoutes = Inr (ips1, rts1)"
        and e: "recurseEdges m adjacencyMap thisPeer thisRoutes targetNode (insert target visited)
                  = Inr (ips2, rts2, v2)"
        and k: "edge_targets m adjacencyMap thisPeer thisRoutes targets v2
                  (append_missing ips1 ips2) (append_missing rts1 rts2) = Inr (ips, rts, v')"
        by (auto simp: edge_targets.psimps split: if_splits sum.splits prod.splits)
      from False v c e 3(5) have "insert target visited \<subseteq> v2" by auto
      moreover from False v c e k 3(6) have "v2 \<subseteq> v'" by auto
      ultimately show ?thesis by auto
    qed
  qed
qed

definition universe :: "AdjacencyMap \<Rightarrow> string set" where
  "universe adjacencyMap = (\<Union>(k, ts) \<in> set adjacencyMap. set ts)"

lemma finite_universe: "finite (universe adjacencyMap)"
  by (auto simp: universe_def)

lemma targets_of_universe: "set (targets_of adjacencyMap k) \<subseteq> universe adjacencyMap"
proof (cases "map_of adjacencyMap k")
  case None
  then show ?thesis by (simp add: targets_of_def)
next
  case (Some ts)
  then have "(k, ts) \<in> set adjacencyMap" by (rule map_of_SomeD)
  then show ?thesis using Some by (auto simp: targets_of_def universe_def)
qed

termination recurseEdges
proof (relation "inv_image (less_than <*lex*> less_than)
    (\<lambda>x. case x of
       Inl (m, adjacencyMap, thisPeer, thisRoutes, node, visited) \<Rightarrow>
         (card (universe adjacencyMap - visited),
          length (targets_of adjacencyMap (Node_ID node)) + 2)
     | Inr (m, adjacencyMap, thisPeer, thisRoutes, targets, visited, allowedIPs, allowedRoutes) \<Rightarrow>
         (card ((universe adjacencyMap \<union> set targets) - visited), length targets + 1))",
    goal_cases)
  case 1
  show ?case by (intro wf_inv_image wf_lex_prod wf_less_than)
next
  case (2 m adjacencyMap thisPeer thisRoutes node visited)
  have "universe adjacencyMap \<union> set (targets_of adjacencyMap (Node_ID node)) = universe adjacencyMap"
    using targets_of_universe by blast
  moreover have "card (universe adjacencyMap - insert (Node_ID node) visited)
       \<le> card (universe adjacencyMap - visited)"
    by (rule card_mono) (auto simp: finite_universe)
  ultimately show ?case by auto
next
  case (3 m adjacencyMap thisPeer thisRoutes target targets visited allowedIPs allowedRoutes)
  have "card ((universe adjacencyMap \<union> set targets) - visited)
      \<le> card ((universe adjacencyMap \<union> set (target # targets)) - visited)"
    by (rule card_mono) (auto simp: finite_universe)
  then show ?case by auto
next
  case (4 m adjacencyMap thisPeer thisRoutes target targets visited allowedIPs allowedRoutes)
  have "card ((universe adjacencyMap \<union> set targets) - visited)
      \<le> card ((universe adjacencyMap \<union> set (target # targets)) - visited)"
    by (rule card_mono) (auto simp: finite_universe)
  then show ?case by auto
next
  case (5 m adjacencyMap thisPeer thisRoutes target targets visited allowedIPs allowedRoutes)
  have "card ((universe adjacencyMap \<union> set targets) - visited)
      \<le> card ((universe adjacencyMap \<union> set (target # targets)) - visited)"
    by (rule card_mono) (auto simp: finite_universe)
  then show ?case by auto
next
  case (6 m adjacencyMap thisPeer thisRoutes target targets visited allowedIPs allowedRoutes
      targetNode x y z)
  have "universe adjacencyMap - insert target visited
      \<subset> (universe adjacencyMap \<union> set (target # targets)) - visited"
    using 6 by auto
  then have "card (universe adjacencyMap - insert target visited)
      < card ((universe adjacencyMap \<union> set (target # targets)) - visited)"
    by (intro psubset_card_mono) (auto simp: finite_universe)
  then show ?case by auto
next
  case (7 m adjacencyMap thisPeer thisRoutes target targets visited allowedIPs allowedRoutes
      targetNode c ips1 rts1 r ips2 rr rts2 v2)
  then have e: "recurseEdges m adjacencyMap thisPeer thisRoutes targetNode (insert target visited)
      = Inr (ips2, rts2, v2)"
    by simp
  from visited_grows(1) [OF 7(10)] e have "insert target visited \<subseteq> v2"
    by blast
  then have "(universe adjacencyMap \<union> set targets) - v2
      \<subseteq> (universe adjacencyMap \<union> set (target # targets)) - visited"
    by auto
  then have "card ((universe adjacencyMap \<union> set targets) - v2)
      \<le> card ((universe adjacencyMap \<union> set (target # targets)) - visited)"
    by (intro card_mono) (auto simp: finite_universe)
  then show ?case by auto
qed

text \<open>\<open>recursePeers\<close>: the block for the direct peer on empty lists, then what
  \<open>recurseEdges\<close> found, merged in with the membership check.\<close>

definition recursePeers ::
  "'p mesh \<Rightarrow> AdjacencyMap \<Rightarrow> string \<Rightarrow> 'p list \<Rightarrow> 'p Node \<Rightarrow> error + ('p list \<times> 'p list)" where
  "recursePeers m adjacencyMap thisPeer thisRoutes node =
     (case contribution m thisRoutes node [] [] of
        Inl err \<Rightarrow> Inl err
      | Inr (allowedIPs, allowedRoutes) \<Rightarrow>
          (case recurseEdges m adjacencyMap thisPeer thisRoutes node {} of
             Inl err \<Rightarrow> Inl (Errorf ''recurse edge allowed IPs: '' (Some err))
           | Inr (edgeIPs, edgeRoutes, visited) \<Rightarrow>
               Inr (append_missing allowedIPs edgeIPs, append_missing allowedRoutes edgeRoutes)))"

text \<open>The \<open>%q\<close> of the error text, for a CIDR of printable characters with no quote or
  backslash in it; and the loop that parses the routes of the requesting node, which
  appends every prefix with no check.\<close>

definition Quote :: "string \<Rightarrow> string" where
  "Quote s = CHR 0x22 # s @ [CHR 0x22]"

fun parse_routes :: "'p mesh \<Rightarrow> string list \<Rightarrow> 'p list \<Rightarrow> error + 'p list" where
  "parse_routes m [] ourRoutes = Inr ourRoutes"
| "parse_routes m (cidr # cidrs) ourRoutes =
     (case netip_ParsePrefix m cidr of
        Inl err \<Rightarrow> Inl (Errorf (''parse prefix '' @ Quote cidr @ '': '') (Some err))
      | Inr pfx \<Rightarrow> parse_routes m cidrs (ourRoutes @ [pfx]))"

text \<open>The preferred endpoint: the first endpoint that starts with the primary endpoint,
  or else the first endpoint.\<close>

definition preferred_endpoint :: "'p Node \<Rightarrow> string" where
  "preferred_endpoint node =
     (let primaryEndpoint =
        (if Node_PrimaryEndpoint node \<noteq> [] then
           (case find (\<lambda>endpoint. prefix (Node_PrimaryEndpoint node) endpoint)
                   (Node_WireGuardEndpoints node) of
              Some endpoint \<Rightarrow> endpoint
            | None \<Rightarrow> [])
         else [])
      in (case Node_WireGuardEndpoints node of
            first # rest \<Rightarrow> if primaryEndpoint = [] then first else primaryEndpoint
          | [] \<Rightarrow> primaryEndpoint))"

text \<open>An address as text, empty when the prefix is not valid; and the peer entry of a
  direct adjacent.\<close>

definition address_string :: "'p mesh \<Rightarrow> 'p option \<Rightarrow> string" where
  "address_string m p = (case p of Some x \<Rightarrow> Prefix_String m x | None \<Rightarrow> [])"

definition wireguard_peer :: "'p mesh \<Rightarrow> 'p Node \<Rightarrow> 'p list \<Rightarrow> 'p list \<Rightarrow> WireGuardPeer" where
  "wireguard_peer m node allowedIPs allowedRoutes =
     \<lparr>Peer_Id = Node_ID node,
      Peer_PublicKey = Node_PublicKey node,
      Peer_ZoneAwarenessId = Node_ZoneAwarenessID node,
      Peer_PrimaryEndpoint = preferred_endpoint node,
      Peer_WireguardEndpoints = Node_WireGuardEndpoints node,
      Peer_AddressIpv4 = address_string m (Node_PrivateIPv4 node),
      Peer_AddressIpv6 = address_string m (Node_NetworkIPv6 node),
      Peer_AllowedIps = map (Prefix_String m) allowedIPs,
      Peer_AllowedRoutes = map (Prefix_String m) allowedRoutes\<rparr>"

text \<open>The loop of \<open>WireGuardPeersFor\<close> over the direct adjacents: each one is a peer.\<close>

fun peers_for ::
  "'p mesh \<Rightarrow> AdjacencyMap \<Rightarrow> string \<Rightarrow> 'p list \<Rightarrow> string list \<Rightarrow> WireGuardPeer list
     \<Rightarrow> error + WireGuardPeer list" where
  "peers_for m adjacencyMap peerID ourRoutes [] out = Inr out"
| "peers_for m adjacencyMap peerID ourRoutes (adjacent # rest) out =
     (case graph_Vertex m adjacent of
        Inl err \<Rightarrow> Inl (Errorf ''get vertex: '' (Some err))
      | Inr node \<Rightarrow>
          (case recursePeers m adjacencyMap peerID ourRoutes node of
             Inl err \<Rightarrow> Inl (Errorf ''recurse allowed IPs: '' (Some err))
           | Inr (allowedIPs, allowedRoutes) \<Rightarrow>
               peers_for m adjacencyMap peerID ourRoutes rest
                 (out @ [wireguard_peer m node allowedIPs allowedRoutes])))"

definition WireGuardPeersFor :: "'p mesh \<Rightarrow> string \<Rightarrow> error + WireGuardPeer list" where
  "WireGuardPeersFor m peerID =
     (case nw_FilterGraph m peerID of
        Inl err \<Rightarrow> Inl (Errorf ''filter adjacency map: '' (Some err))
      | Inr adjacencyMap \<Rightarrow>
          (case nw_GetRoutesByNode m peerID of
             Inl err \<Rightarrow> Inl (Errorf ''get routes by node: '' (Some err))
           | Inr routes \<Rightarrow>
               (case parse_routes m (concat (map Route_DestinationCidrs routes)) [] of
                  Inl err \<Rightarrow> Inl err
                | Inr ourRoutes \<Rightarrow>
                    peers_for m adjacencyMap peerID ourRoutes
                      (targets_of adjacencyMap peerID) [])))"

text \<open>
  Modelled from the spec: \<open>FilterGraph\<close> and the graph built from the edges are not among
  the sources. The candidate pairs are those implied by an edge, and a pair stays when
  the ACLs accept it; how the ACLs decide a pair is the parameter \<open>accept\<close>, and an
  allow-all ACL accepts every pair. An edge makes each of its two nodes a target of the
  other: \<open>TestWireGuardPeers\<close> puts the one edge from peer1 to peer2 and expects peer1
  among the peers of peer2.
\<close>

definition neighbours :: "(string \<times> string) list \<Rightarrow> string \<Rightarrow> string list" where
  "neighbours edges n =
     remdups (map snd (filter (\<lambda>e. fst e = n) edges) @ map fst (filter (\<lambda>e. snd e = n) edges))"

definition FilterGraph ::
  "'p Node list \<Rightarrow> (string \<times> string) list \<Rightarrow> (string \<Rightarrow> string \<Rightarrow> bool) \<Rightarrow> string
     \<Rightarrow> error + AdjacencyMap" where
  "FilterGraph nodes edges accept forNode =
     Inr (map (\<lambda>n. (Node_ID n, filter (accept (Node_ID n)) (neighbours edges (Node_ID n)))) nodes)"

subsection \<open>The meshes of TestWireGuardPeers and of the chain scenario\<close>

text \<open>Nodes with both addresses and no endpoint, prefixes as their text, an allow-all
  ACL.\<close>

definition test_node :: "string \<Rightarrow> string \<Rightarrow> string \<Rightarrow> string Node" where
  "test_node n v4 v6 =
     \<lparr>Node_ID = n, Node_PublicKey = ''key-'' @ n, Node_PrimaryEndpoint = [],
      Node_WireGuardEndpoints = [], Node_ZoneAwarenessID = [],
      Node_PrivateIPv4 = Some v4, Node_NetworkIPv6 = Some v6\<rparr>"

definition test_mesh ::
  "string Node list \<Rightarrow> (string \<times> string) list \<Rightarrow> (string \<Rightarrow> Route list) \<Rightarrow> string mesh" where
  "test_mesh nodes edges routes =
     \<lparr>graph_nodes = nodes,
      nw_FilterGraph = FilterGraph nodes edges (\<lambda>s t. True),
      nw_GetRoutesByNode = (\<lambda>n. Inr (routes n)),
      netip_ParsePrefix = (\<lambda>s. if s = [] then Inl (ErrDriver ''no prefix'') else Inr s),
      Prefix_String = (\<lambda>p. p)\<rparr>"

definition chain_nodes :: "string Node list" where
  "chain_nodes =
     [test_node ''A'' ''172.16.0.1/32'' ''2001:db8::1/128'',
      test_node ''B'' ''172.16.0.2/32'' ''2001:db8::2/128'',
      test_node ''C'' ''172.16.0.3/32'' ''2001:db8::3/128'']"

definition chain_edges :: "(string \<times> string) list" where
  "chain_edges = [(''A'', ''B''), (''B'', ''C'')]"

definition chain :: "string mesh" where
  "chain = test_mesh chain_nodes chain_edges (\<lambda>n. [])"

definition site_to_site :: "string mesh" where
  "site_to_site = test_mesh
     [test_node ''site1-router'' ''172.16.0.1/32'' ''2001:db8::1/128'',
      test_node ''site2-router'' ''172.16.0.2/32'' ''2001:db8::2/128'',
      test_node ''site1-follower'' ''172.16.0.3/32'' ''2001:db8::3/128'',
      test_node ''site2-follower'' ''172.16.0.4/32'' ''2001:db8::4/128'']
     [(''site1-router'', ''site2-router''), (''site1-router'', ''site1-follower''),
      (''site2-router'', ''site1-router''), (''site2-router'', ''site2-follower'')] (\<lambda>n. [])"


text \<open>Three more meshes: an edge from a node to itself, a node whose two addresses are the
  same prefix, and a node X that advertises a route next to a node Y that advertises
  none.\<close>

definition self_edge :: "string mesh" where
  "self_edge = test_mesh
     [test_node ''A'' ''172.16.0.1/32'' ''2001:db8::1/128'',
      test_node ''B'' ''172.16.0.2/32'' ''2001:db8::2/128'']
     [(''A'', ''A''), (''A'', ''B'')] (\<lambda>n. [])"

definition same_address :: "string mesh" where
  "same_address = test_mesh
     [test_node ''A'' ''172.16.0.1/32'' ''2001:db8::1/128'',
      test_node ''B'' ''2001:db8::2/128'' ''2001:db8::2/128'']
     [(''A'', ''B'')] (\<lambda>n. [])"

definition routed :: "string mesh" where
  "routed = test_mesh
     [test_node ''X'' ''172.16.0.1/32'' ''2001:db8::1/128'',
      test_node ''Y'' ''172.16.0.2/32'' ''2001:db8::2/128'']
     [(''X'', ''Y'')]
     (\<lambda>n. if n = ''X'' then
        [\<lparr>Route_Name = ''site'', Route_Nodes = [''X''],
          Route_DestinationCidrs = [''10.0.0.0/24''], Route_NextHopNodes = []\<rparr>]
      else [])"


subsection \<open>Properties of peer resolution\<close>

lemma contains_iff: "contains ss s \<longleftrightarrow> s \<in> set ss"
  by (induction ss) auto

lemma set_append_missing: "set (append_missing acc xs) = set acc \<union> set xs"
  by (induction xs arbitrary: acc) (auto simp: contains_iff)

lemma distinct_append_missing: "distinct acc \<Longrightarrow> distinct (append_missing acc xs)"
  by (induction xs arbitrary: acc) (auto simp: contains_iff)

lemma distinct_append_cidrs:
  "append_cidrs m thisRoutes cidrs ips = Inr ips' \<Longrightarrow> distinct ips \<Longrightarrow> distinct ips'"
  by (induction cidrs arbitrary: ips) (auto simp: contains_iff split: sum.splits if_splits)

lemma set_append_cidrs:
  "append_cidrs m thisRoutes cidrs ips = Inr ips' \<Longrightarrow>
   set ips' = set ips \<union> ({pfx. \<exists>cidr \<in> set cidrs. netip_ParsePrefix m cidr = Inr pfx} - set thisRoutes)"
proof (induction cidrs arbitrary: ips)
  case Nil
  then show ?case by simp
next
  case (Cons c cs)
  then obtain pfx where p: "netip_ParsePrefix m c = Inr pfx"
    by (auto split: sum.splits)
  with Cons.prems have "append_cidrs m thisRoutes cs
      (if \<not> contains ips pfx \<and> \<not> contains thisRoutes pfx then ips @ [pfx] else ips) = Inr ips'"
    by simp
  from Cons.IH [OF this] p show ?case
    by (auto simp: contains_iff split: if_splits)
qed

lemma graph_Vertex_ID: "graph_Vertex m k = Inr node \<Longrightarrow> Node_ID node = k \<and> node \<in> set (graph_nodes m)"
  by (auto simp: graph_Vertex_def find_Some_iff split: option.splits)

lemma peers_for_entries:
  "peers_for m adjacencyMap peerID ourRoutes ts out = Inr res \<Longrightarrow>
   \<exists>ps. res = out @ ps \<and>
        list_all2 (\<lambda>t p. \<exists>node ips rts. graph_Vertex m t = Inr node \<and>
            recursePeers m adjacencyMap peerID ourRoutes node = Inr (ips, rts) \<and>
            p = wireguard_peer m node ips rts) ts ps"
proof (induction ts arbitrary: out)
  case Nil
  then show ?case by simp
next
  case (Cons t ts)
  then obtain node ips rts where v: "graph_Vertex m t = Inr node"
    and r: "recursePeers m adjacencyMap peerID ourRoutes node = Inr (ips, rts)"
    and k: "peers_for m adjacencyMap peerID ourRoutes ts (out @ [wireguard_peer m node ips rts]) = Inr res"
    by (auto split: sum.splits)
  from Cons.IH [OF k] obtain ps where "res = (out @ [wireguard_peer m node ips rts]) @ ps"
    and "list_all2 (\<lambda>t p. \<exists>node ips rts. graph_Vertex m t = Inr node \<and>
            recursePeers m adjacencyMap peerID ourRoutes node = Inr (ips, rts) \<and>
            p = wireguard_peer m node ips rts) ts ps"
    by blast
  with v r show ?case
    by (intro exI [of _ "wireguard_peer m node ips rts # ps"]) auto
qed

lemma peers_for_ids:
  assumes "peers_for m adjacencyMap peerID ourRoutes ts [] = Inr res"
  shows "map Peer_Id res = ts"
proof -
  from peers_for_entries [OF assms] have
    "list_all2 (\<lambda>t p. \<exists>node ips rts. graph_Vertex m t = Inr node \<and>
            recursePeers m adjacencyMap peerID ourRoutes node = Inr (ips, rts) \<and>
            p = wireguard_peer m node ips rts) ts res"
    by simp
  then have "list_all2 (\<lambda>t p. Peer_Id p = t) ts res"
    by (rule list_all2_mono) (auto simp: wireguard_peer_def dest: graph_Vertex_ID)
  then show ?thesis
    by (induction rule: list_all2_induct) auto
qed

lemma WireGuardPeersFor_ids:
  assumes "WireGuardPeersFor m peerID = Inr peers" and "nw_FilterGraph m peerID = Inr adjacencyMap"
  shows "map Peer_Id peers = targets_of adjacencyMap peerID"
  using assms
  by (auto simp: WireGuardPeersFor_def split: sum.splits dest: peers_for_ids)

lemma contribution_from_empty:
  assumes "contribution m thisRoutes node [] [] = Inr (ips, rts)"
  shows "\<exists>routes. nw_GetRoutesByNode m (Node_ID node) = Inr routes \<and>
     (if routes \<noteq> [] then
        rts = [] \<and>
        set ips = set (valid_prefix (Node_PrivateIPv4 node) @ valid_prefix (Node_NetworkIPv6 node))
          \<union> ({pfx. \<exists>cidr \<in> set (concat (map Route_DestinationCidrs routes)).
                 netip_ParsePrefix m cidr = Inr pfx} - set thisRoutes)
      else
        ips = valid_prefix (Node_PrivateIPv4 node) @ valid_prefix (Node_NetworkIPv6 node) \<and>
        set rts = set thisRoutes \<and> distinct rts)"
  using assms
  by (auto simp: contribution_def Let_def set_append_missing distinct_append_missing
      split: sum.splits if_splits dest!: set_append_cidrs)

lemma contribution_distinct:
  assumes "contribution m thisRoutes node [] [] = Inr (ips, rts)"
    and "Node_PrivateIPv4 node = None \<or> Node_PrivateIPv4 node \<noteq> Node_NetworkIPv6 node"
  shows "distinct ips \<and> distinct rts"
proof -
  have d: "distinct (valid_prefix (Node_PrivateIPv4 node) @ valid_prefix (Node_NetworkIPv6 node))"
    using assms(2) by (auto simp: valid_prefix_def split: option.splits)
  show ?thesis
    using assms(1) d
    by (auto simp: contribution_def Let_def distinct_append_missing
        split: sum.splits if_splits dest: distinct_append_cidrs)
qed

lemma recursePeers_distinct:
  assumes "recursePeers m adjacencyMap thisPeer thisRoutes node = Inr (ips, rts)"
    and "Node_PrivateIPv4 node = None \<or> Node_PrivateIPv4 node \<noteq> Node_NetworkIPv6 node"
  shows "distinct ips \<and> distinct rts"
  using assms
  by (auto simp: recursePeers_def split: sum.splits prod.splits
      dest!: contribution_distinct intro: distinct_append_missing)

text \<open>The definitions that evaluate peer resolution on a concrete mesh.\<close>

lemmas peers_eval =
  WireGuardPeersFor_def test_mesh_def test_node_def FilterGraph_def neighbours_def
  targets_of_def graph_Vertex_def recursePeers_def contribution_def valid_prefix_def
  wireguard_peer_def address_string_def preferred_endpoint_def Let_def

lemma distinct_set_single: "distinct xs \<Longrightarrow> set xs = {a} \<Longrightarrow> xs = [a]"
  by (cases xs) (auto simp: singleton_insert_inj_eq' dest: subset_singletonD)

lemma distinct_set_pair:
  assumes "distinct xs" and "set xs = {a, b}" and "a \<noteq> b"
  shows "xs = [a, b] \<or> xs = [b, a]"
proof -
  from assms have "length xs = 2"
    by (metis card_2_iff distinct_card)
  then obtain x y where xs: "xs = [x, y]"
    by (metis (no_types, opaque_lifting) One_nat_def Suc_1 length_0_conv length_Suc_conv)
  with assms show ?thesis by (auto simp: doubleton_eq_iff)
qed

text \<open>
  The model on the third case of \<open>TestWireGuardPeers\<close> (simple site-to-site): the peers
  and allowed addresses that the test expects, which it compares after sorting.
\<close>

lemma TestWireGuardPeers_site_to_site:
  "map_sum id (map (\<lambda>p. (Peer_Id p, Peer_AllowedIps p))) (WireGuardPeersFor site_to_site ''site1-router'')
     = Inr [(''site1-follower'', [''172.16.0.3/32'', ''2001:db8::3/128'']),
            (''site2-router'', [''172.16.0.2/32'', ''2001:db8::2/128'',
                                ''172.16.0.4/32'', ''2001:db8::4/128''])]"
  "map_sum id (map (\<lambda>p. (Peer_Id p, Peer_AllowedIps p))) (WireGuardPeersFor site_to_site ''site2-router'')
     = Inr [(''site2-follower'', [''172.16.0.4/32'', ''2001:db8::4/128'']),
            (''site1-router'', [''172.16.0.1/32'', ''2001:db8::1/128'',
                                ''172.16.0.3/32'', ''2001:db8::3/128''])]"
  "map_sum id (map (\<lambda>p. (Peer_Id p, Peer_AllowedIps p))) (WireGuardPeersFor site_to_site ''site1-follower'')
     = Inr [(''site1-router'', [''172.16.0.1/32'', ''2001:db8::1/128'', ''172.16.0.2/32'',
                                ''2001:db8::2/128'', ''172.16.0.4/32'', ''2001:db8::4/128''])]"
  "map_sum id (map (\<lambda>p. (Peer_Id p, Peer_AllowedIps p))) (WireGuardPeersFor site_to_site ''site2-follower'')
     = Inr [(''site2-router'', [''172.16.0.2/32'', ''2001:db8::2/128'', ''172.16.0.1/32'',
                                ''2001:db8::1/128'', ''172.16.0.3/32'', ''2001:db8::3/128''])]"
  by (simp_all add: peers_eval site_to_site_def)

lemma chain_FilterGraph:
  "nw_FilterGraph chain forNode
     = Inr [(''A'', [''B'']), (''B'', [''C'', ''A'']), (''C'', [''B''])]"
  by (simp add: chain_def chain_nodes_def chain_edges_def test_mesh_def test_node_def
      FilterGraph_def neighbours_def)

lemma chain_peers_of_A:
  "WireGuardPeersFor chain ''A''
     = Inr [wireguard_peer chain (test_node ''B'' ''172.16.0.2/32'' ''2001:db8::2/128'')
         [''172.16.0.2/32'', ''2001:db8::2/128'', ''172.16.0.3/32'', ''2001:db8::3/128''] []]"
  by (simp add: peers_eval chain_def chain_nodes_def chain_edges_def)

lemma chain_peers_of_C:
  "WireGuardPeersFor chain ''C''
     = Inr [wireguard_peer chain (test_node ''B'' ''172.16.0.2/32'' ''2001:db8::2/128'')
         [''172.16.0.2/32'', ''2001:db8::2/128'', ''172.16.0.1/32'', ''2001:db8::1/128''] []]"
  by (simp add: peers_eval chain_def chain_nodes_def chain_edges_def)


text \<open>With the graph and the filter as modelled above, an accepted edge from A to A gives
  such an adjacency map.\<close>

lemma self_edge_lists_self:
  "nw_FilterGraph self_edge ''A'' = Inr [(''A'', [''B'', ''A'']), (''B'', [''A''])] \<and>
   map_sum id (map Peer_Id) (WireGuardPeersFor self_edge ''A'') = Inr [''B'', ''A'']"
  by (simp add: peers_eval self_edge_def)

text \<open>
  C5. In the chain with the edges from A to B and from B to C under an allow-all ACL,
  whatever the order in which the targets of the filtered adjacency map are visited:
  the peers of A are the one peer B, whose allowed addresses are the addresses of B and
  of C; the peers of C are the one peer B, whose allowed addresses are the addresses of B
  and of A.
\<close>

theorem chain_relay:
  assumes "FilterGraph chain_nodes chain_edges (\<lambda>source target. True) forNode = Inr filtered"
    and "\<forall>k. distinct (targets_of adjacencyMap k) \<and>
             set (targets_of adjacencyMap k) = set (targets_of filtered k)"
  shows "(\<exists>b. WireGuardPeersFor (chain\<lparr>nw_FilterGraph := (\<lambda>forNode. Inr adjacencyMap)\<rparr>) ''A'' = Inr [b] \<and>
            Peer_Id b = ''B'' \<and>
            set (Peer_AllowedIps b)
              = {''172.16.0.2/32'', ''2001:db8::2/128'', ''172.16.0.3/32'', ''2001:db8::3/128''}) \<and>
         (\<exists>b. WireGuardPeersFor (chain\<lparr>nw_FilterGraph := (\<lambda>forNode. Inr adjacencyMap)\<rparr>) ''C'' = Inr [b] \<and>
            Peer_Id b = ''B'' \<and>
            set (Peer_AllowedIps b)
              = {''172.16.0.2/32'', ''2001:db8::2/128'', ''172.16.0.1/32'', ''2001:db8::1/128''})"
proof -
  let ?am = adjacencyMap
  from assms(1) have f: "filtered = [(''A'', [''B'']), (''B'', [''C'', ''A'']), (''C'', [''B''])]"
    by (simp add: chain_nodes_def chain_edges_def test_node_def FilterGraph_def neighbours_def)
  from assms(2) have dA: "distinct (targets_of ?am ''A'')" and dB: "distinct (targets_of ?am ''B'')"
    and dC: "distinct (targets_of ?am ''C'')" by blast+
  from assms(2) have "set (targets_of ?am ''A'') = set (targets_of filtered ''A'')" by blast
  then have sA: "set (targets_of ?am ''A'') = {''B''}"
    by (simp add: f targets_of_def)
  from assms(2) have "set (targets_of ?am ''C'') = set (targets_of filtered ''C'')" by blast
  then have sC: "set (targets_of ?am ''C'') = {''B''}"
    by (simp add: f targets_of_def)
  from assms(2) have "set (targets_of ?am ''B'') = set (targets_of filtered ''B'')" by blast
  then have sB: "set (targets_of ?am ''B'') = {''A'', ''C''}"
    by (auto simp: f targets_of_def)
  have tA: "targets_of ?am ''A'' = [''B'']" using distinct_set_single [OF dA sA] .
  have tC: "targets_of ?am ''C'' = [''B'']" using distinct_set_single [OF dC sC] .
  have "targets_of ?am ''B'' = [''A'', ''C''] \<or> targets_of ?am ''B'' = [''C'', ''A'']"
    using distinct_set_pair [OF dB sB] by simp
  then show ?thesis
  proof
    assume tB: "targets_of ?am ''B'' = [''A'', ''C'']"
    show ?thesis
      by (simp add: tA tB tC WireGuardPeersFor_def chain_def chain_nodes_def test_mesh_def
          test_node_def graph_Vertex_def recursePeers_def contribution_def valid_prefix_def
          wireguard_peer_def address_string_def preferred_endpoint_def Let_def insert_commute)
  next
    assume tB: "targets_of ?am ''B'' = [''C'', ''A'']"
    show ?thesis
      by (simp add: tA tB tC WireGuardPeersFor_def chain_def chain_nodes_def test_mesh_def
          test_node_def graph_Vertex_def recursePeers_def contribution_def valid_prefix_def
          wireguard_peer_def address_string_def preferred_endpoint_def Let_def insert_commute)
  qed
qed

lemma chain_own_FilterGraph:
  "chain\<lparr>nw_FilterGraph := (\<lambda>forNode. Inr [(''A'', [''B'']), (''B'', [''C'', ''A'']), (''C'', [''B''])])\<rparr>
     = chain"
  by (simp add: chain_def chain_nodes_def chain_edges_def test_mesh_def test_node_def
      FilterGraph_def neighbours_def fun_eq_iff)

theorem chain_relay_witness:
  "FilterGraph chain_nodes chain_edges (\<lambda>source target. True) ''A''
     = Inr [(''A'', [''B'']), (''B'', [''C'', ''A'']), (''C'', [''B''])] \<and>
   (\<exists>b. WireGuardPeersFor chain ''A'' = Inr [b] \<and> Peer_Id b = ''B'' \<and>
      set (Peer_AllowedIps b)
        = {''172.16.0.2/32'', ''2001:db8::2/128'', ''172.16.0.3/32'', ''2001:db8::3/128''}) \<and>
   (\<exists>b. WireGuardPeersFor chain ''C'' = Inr [b] \<and> Peer_Id b = ''B'' \<and>
      set (Peer_AllowedIps b)
        = {''172.16.0.2/32'', ''2001:db8::2/128'', ''172.16.0.1/32'', ''2001:db8::1/128''})"
proof -
  have f: "FilterGraph chain_nodes chain_edges (\<lambda>source target. True) ''A''
     = Inr [(''A'', [''B'']), (''B'', [''C'', ''A'']), (''C'', [''B''])]"
    by (simp add: chain_nodes_def chain_edges_def test_node_def FilterGraph_def neighbours_def)
  have d: "\<forall>k. distinct (targets_of [(''A'', [''B'']), (''B'', [''C'', ''A'']), (''C'', [''B''])] k) \<and>
      set (targets_of [(''A'', [''B'']), (''B'', [''C'', ''A'']), (''C'', [''B''])] k)
        = set (targets_of [(''A'', [''B'']), (''B'', [''C'', ''A'']), (''C'', [''B''])] k)"
    by (simp add: targets_of_def)
  from chain_relay [OF f d] f show ?thesis
    unfolding chain_own_FilterGraph by blast
qed


lemma routed_view_of_Y:
  "recursePeers routed [(''X'', [''Y'']), (''Y'', [''X''])] ''Y'' []
     (test_node ''X'' ''172.16.0.1/32'' ''2001:db8::1/128'')
     = Inr ([''172.16.0.1/32'', ''2001:db8::1/128'', ''10.0.0.0/24''], [])"
  by (simp add: peers_eval routed_def)

lemma routed_view_of_X:
  "recursePeers routed [(''X'', [''Y'']), (''Y'', [''X''])] ''X'' [''10.0.0.0/24'']
     (test_node ''Y'' ''172.16.0.2/32'' ''2001:db8::2/128'')
     = Inr ([''172.16.0.2/32'', ''2001:db8::2/128''], [''10.0.0.0/24''])"
  by (simp add: peers_eval routed_def)

text \<open>
  The claim as stated fails for a direct peer whose two addresses are the same prefix:
  both are appended with no membership check, and the prefix is listed twice.
\<close>

theorem same_address_counterexample:
  "map_sum id (map Peer_AllowedIps) (WireGuardPeersFor same_address ''A'')
     = Inr [[''2001:db8::2/128'', ''2001:db8::2/128'']]"
  by (simp add: peers_eval same_address_def)

end
